theory Spec2Isabelle
  imports
    Main
    "HOL-Library.Char_ord"
    "HOL-Library.List_Lexorder"
    "HOL-Library.Multiset"
begin

section \<open>Python values, errors and strings\<close>

text \<open>
  The development embeds the parts of \<^verbatim>\<open>ifc_datareader\<close> that read an IFC schema
  (\<^verbatim>\<open>schema/ifc_schema_objects.py\<close>, \<^verbatim>\<open>schema/ifc_schema_reader.py\<close>) and that wrap raw IFC
  records (\<^verbatim>\<open>ifc_base_entity.py\<close>, \<^verbatim>\<open>ifc_object_entity.py\<close>, \<^verbatim>\<open>ifc_object_entity_pset.py\<close>,
  \<^verbatim>\<open>ifc_object_entity_property.py\<close>, \<^verbatim>\<open>ifc_data_reader.py\<close>, \<^verbatim>\<open>tools.py\<close>).

  Conventions. A Python exception is a value \<open>Inl e\<close> of a sum type; a normal return is
  \<open>Inr v\<close>. A private field \<^verbatim>\<open>_x\<close> of the source is written \<open>priv_x\<close>, a private method
  \<^verbatim>\<open>_m\<close> is written \<open>m\<close>, and a member whose name several classes share carries a short
  prefix of its class. Strings are \<^typ>\<open>string\<close>; the characters the source tests for
  are all ASCII.
\<close>

datatype py_error =
  ValueError | KeyError | AttributeError | TypeError | RecursionError | RuntimeError

text \<open>
  The values that occur in the dictionary returned by \<^verbatim>\<open>get_info()\<close> of a raw record:
  \<^verbatim>\<open>None\<close>, strings, numbers, booleans, and instances of a simple type (such as
  \<^verbatim>\<open>IfcLengthMeasure(2.5)\<close>), which carry a type name and, when they have one, a
  \<^verbatim>\<open>wrappedValue\<close>.
\<close>

datatype py_value =
  PyNone | PyStr string | PyInt int | PyBool bool | PyInst string "py_value option"

definition NL :: char where "NL = CHR 0x0A"

definition TAB :: char where "TAB = CHR 0x09"

text \<open>\<^verbatim>\<open>string.punctuation\<close>, in the order of the standard library.\<close>

definition punctuation :: string where
  "punctuation =
     [CHR ''!'', CHR 0x22, CHR ''#'', CHR ''$'', CHR ''%'', CHR ''&'', CHR 0x27,
      CHR ''('', CHR '')'', CHR ''*'', CHR ''+'', CHR '','', CHR ''-'',
      CHR ''.'', CHR ''/'', CHR '':'', CHR '';'', CHR ''<'', CHR ''='',
      CHR ''>'', CHR ''?'', CHR ''@'', CHR ''['', CHR 0x5C, CHR '']'',
      CHR ''^'', CHR ''_'', CHR 0x60, CHR ''{'', CHR ''|'', CHR ''}'',
      CHR ''~'']"

text \<open>
  \<^verbatim>\<open>s.replace(old, new)\<close>: every non-overlapping occurrence of \<open>old\<close>, scanning from the
  left. With an empty \<open>old\<close> Python inserts \<open>new\<close> before every character and at the end.
\<close>

fun str_replace :: "string \<Rightarrow> string \<Rightarrow> string \<Rightarrow> string" where
  "str_replace old new [] = (if old = [] then new else [])"
| "str_replace old new (c # cs) =
     (if old = [] then new @ c # str_replace old new cs
      else if take (length old) (c # cs) = old
        then new @ str_replace old new (drop (length old) (c # cs))
      else c # str_replace old new cs)"

text \<open>\<^verbatim>\<open>s.split(sep)\<close> for a separator of one character (the source only splits at a comma).\<close>

fun str_split :: "char \<Rightarrow> string \<Rightarrow> string list" where
  "str_split sep [] = [[]]"
| "str_split sep (c # cs) =
     (if c = sep then [] # str_split sep cs
      else (case str_split sep cs of [] \<Rightarrow> [[c]] | t # ts \<Rightarrow> (c # t) # ts))"

text \<open>\<^verbatim>\<open>s.lower()\<close> on ASCII text: the 26 capital letters are mapped, nothing else changes.\<close>

definition ascii_uppercase :: string where
  "ascii_uppercase = ''ABCDEFGHIJKLMNOPQRSTUVWXYZ''"

definition ascii_lowercase :: string where
  "ascii_lowercase = ''abcdefghijklmnopqrstuvwxyz''"

definition lower_char :: "char \<Rightarrow> char" where
  "lower_char c = (case map_of (zip ascii_uppercase ascii_lowercase) c of
                     None \<Rightarrow> c | Some l \<Rightarrow> l)"

definition str_lower :: "string \<Rightarrow> string" where
  "str_lower s = map lower_char s"

text \<open>\<^verbatim>\<open>s.startswith(p)\<close>.\<close>

definition startswith :: "string \<Rightarrow> string \<Rightarrow> bool" where
  "startswith s p = (take (length p) s = p)"

text \<open>
  \<^verbatim>\<open>s.partition(sep)\<close> for a non-empty separator: the text before the first occurrence
  of \<open>sep\<close>, the separator, and the text after it; the whole string and two empty
  strings when \<open>sep\<close> does not occur.
\<close>

fun partition_py :: "string \<Rightarrow> string \<Rightarrow> string \<times> string \<times> string" where
  "partition_py [] sep = ([], [], [])"
| "partition_py (c # cs) sep =
     (if take (length sep) (c # cs) = sep then ([], sep, drop (length sep) (c # cs))
      else (case partition_py cs sep of
              (before, found, after) \<Rightarrow> (c # before, found, after)))"

text \<open>A dictionary is an association list read with \<^const>\<open>map_of\<close>; \<^verbatim>\<open>sorted(d)\<close> is
  the ascending list of its keys.\<close>

definition sorted_keys :: "(string \<times> 'v) list \<Rightarrow> string list" where
  "sorted_keys d = sort (remdups (map fst d))"

definition dict_get :: "(string \<times> py_value) list \<Rightarrow> string \<Rightarrow> py_value" where
  "dict_get d k = (case map_of d k of None \<Rightarrow> PyNone | Some v \<Rightarrow> v)"

section \<open>Schema objects (\<^verbatim>\<open>schema/ifc_schema_objects.py\<close>)\<close>

subsection \<open>Defined types\<close>

record IfcSchemaDefinedType =
  dt_name :: string
  dt_raw_value :: string

definition SIMPLE_TYPES :: "string list" where
  "SIMPLE_TYPES = [''INTEGER'', ''REAL'', ''STRING'', ''NUMBER'', ''LOGICAL'', ''BOOLEAN'']"

text \<open>
  \<^verbatim>\<open>re.split(' |\\) |\\(', s)\<close>: the text is cut at every space, at every closing
  parenthesis that a space follows (both characters are consumed) and at every opening
  parenthesis. The alternatives are tried in this order at each position.
\<close>

fun re_split :: "string \<Rightarrow> string list" where
  "re_split [] = [[]]"
| "re_split (c # cs) =
     (if c = CHR '' '' then [] # re_split cs
      else if c = CHR '')'' \<and> take 1 cs = '' '' then [] # re_split (drop 1 cs)
      else if c = CHR ''('' then [] # re_split cs
      else (case re_split cs of [] \<Rightarrow> [[c]] | t # ts \<Rightarrow> (c # t) # ts))"

definition dt_type_name :: "IfcSchemaDefinedType \<Rightarrow> string" where
  "dt_type_name d =
     (let raw_values = re_split (dt_raw_value d) in
      if card (set raw_values \<inter> set SIMPLE_TYPES) \<le> 0 then ''#'' @ dt_raw_value d
      else dt_raw_value d)"

definition is_ref :: "IfcSchemaDefinedType \<Rightarrow> bool" where
  "is_ref d = startswith (dt_type_name d) ''#''"

subsection \<open>Select types\<close>

text \<open>The raw member text is \<^verbatim>\<open>None\<close> when the select type was built without one.\<close>

record IfcSchemaSelectType =
  st_name :: string
  st_raw_types :: "string option"

definition entity_names :: "IfcSchemaSelectType \<Rightarrow> py_error + string list" where
  "entity_names t =
     (case st_raw_types t of
        None \<Rightarrow> Inl AttributeError
      | Some raw \<Rightarrow> Inr (sort (str_split (CHR '','') (str_replace [NL, TAB] [] raw))))"

subsection \<open>Entities and their attributes\<close>

record IfcSchemaEntityAttribute =
  attr_name :: string
  attr_raw_type :: string
  attr_entity_name :: string

definition is_optional :: "IfcSchemaEntityAttribute \<Rightarrow> bool" where
  "is_optional a = startswith (attr_raw_type a) ''OPTIONAL''"

text \<open>
  \<^verbatim>\<open>_attributes_by_name\<close> maps an attribute name to the attribute object that
  \<^verbatim>\<open>_extract_raw_data\<close> built from the name, the raw type and the entity itself. The
  dictionary is kept as name and raw type; the object is rebuilt on access, with the
  name of the declaring entity in place of the reference to it.
\<close>

record IfcSchemaEntity =
  ent_name :: string
  supertype_name :: "string option"
  priv_attributes_by_name :: "(string \<times> string) list"

definition get_attribute :: "IfcSchemaEntity \<Rightarrow> string \<Rightarrow> py_error + IfcSchemaEntityAttribute" where
  "get_attribute e attribute_name =
     (case map_of (priv_attributes_by_name e) attribute_name of
        None \<Rightarrow> Inl KeyError
      | Some raw_type \<Rightarrow>
          Inr \<lparr>attr_name = attribute_name, attr_raw_type = raw_type,
               attr_entity_name = ent_name e\<rparr>)"

definition attribute_names :: "IfcSchemaEntity \<Rightarrow> string list" where
  "attribute_names e = sorted_keys (priv_attributes_by_name e)"

text \<open>The subscripts \<^verbatim>\<open>self._attributes_by_name[name]\<close> below range over keys of the
  dictionary, so none of them raises.\<close>

definition subscript_all :: "IfcSchemaEntity \<Rightarrow> string list \<Rightarrow> IfcSchemaEntityAttribute list" where
  "subscript_all e names =
     List.map_filter (\<lambda>n. case get_attribute e n of Inl _ \<Rightarrow> None | Inr a \<Rightarrow> Some a) names"

definition attributes :: "IfcSchemaEntity \<Rightarrow> IfcSchemaEntityAttribute list" where
  "attributes e = subscript_all e (attribute_names e)"

definition not_optional_attribute_names :: "IfcSchemaEntity \<Rightarrow> string list" where
  "not_optional_attribute_names e =
     map attr_name (filter (\<lambda>a. \<not> is_optional a) (attributes e))"

definition not_optional_attributes :: "IfcSchemaEntity \<Rightarrow> IfcSchemaEntityAttribute list" where
  "not_optional_attributes e = subscript_all e (not_optional_attribute_names e)"

subsection \<open>The registry (\<^verbatim>\<open>schema/ifc_schema_reader.py\<close>)\<close>

record IfcSchema =
  version :: string
  priv_defined_types_by_name :: "(string \<times> IfcSchemaDefinedType) list"
  priv_entities_by_name :: "(string \<times> IfcSchemaEntity) list"

definition get_defined_type :: "IfcSchema \<Rightarrow> string \<Rightarrow> py_error + IfcSchemaDefinedType" where
  "get_defined_type S defined_type_name =
     (case map_of (priv_defined_types_by_name S) defined_type_name of
        None \<Rightarrow> Inl KeyError | Some d \<Rightarrow> Inr d)"

definition get_entity :: "IfcSchema \<Rightarrow> string \<Rightarrow> py_error + IfcSchemaEntity" where
  "get_entity S entity_name =
     (case map_of (priv_entities_by_name S) entity_name of
        None \<Rightarrow> Inl KeyError | Some e \<Rightarrow> Inr e)"

text \<open>\<^verbatim>\<open>ref_type\<close> of a defined type; the registry the object refers to is passed along.\<close>

definition ref_type :: "IfcSchema \<Rightarrow> IfcSchemaDefinedType \<Rightarrow> py_error + IfcSchemaDefinedType option" where
  "ref_type S d =
     (if is_ref d then
        (case get_defined_type S (dt_raw_value d) of Inl x \<Rightarrow> Inl x | Inr t \<Rightarrow> Inr (Some t))
      else Inr None)"

definition supertype :: "IfcSchema \<Rightarrow> IfcSchemaEntity \<Rightarrow> py_error + IfcSchemaEntity option" where
  "supertype S e =
     (case supertype_name e of
        None \<Rightarrow> Inr None
      | Some n \<Rightarrow> (case get_entity S n of Inl x \<Rightarrow> Inl x | Inr s \<Rightarrow> Inr (Some s)))"

text \<open>
  \<^verbatim>\<open>get_all_attributes\<close> calls itself on the supertype. The first argument is the
  recursion depth the interpreter still allows; a chain of supertypes that never ends
  exhausts it and raises \<^verbatim>\<open>RecursionError\<close>.
\<close>

fun get_all_attributes ::
  "nat \<Rightarrow> IfcSchema \<Rightarrow> IfcSchemaEntity \<Rightarrow> bool \<Rightarrow> py_error + IfcSchemaEntityAttribute list" where
  "get_all_attributes 0 S e include_optional = Inl RecursionError"
| "get_all_attributes (Suc depth) S e include_optional =
     (let all_attrs = (if include_optional then attributes e else not_optional_attributes e) in
      case supertype S e of
        Inl x \<Rightarrow> Inl x
      | Inr None \<Rightarrow> Inr all_attrs
      | Inr (Some s) \<Rightarrow>
          (case get_all_attributes depth S s include_optional of
             Inl x \<Rightarrow> Inl x
           | Inr inherited \<Rightarrow> Inr (inherited @ all_attrs)))"

definition build_name :: "bool \<Rightarrow> string \<Rightarrow> string \<Rightarrow> string" where
  "build_name include_classname classname name =
     (if include_classname then classname @ ''.'' @ name else name)"

definition get_all_attribute_names ::
  "nat \<Rightarrow> IfcSchema \<Rightarrow> IfcSchemaEntity \<Rightarrow> bool \<Rightarrow> bool \<Rightarrow> py_error + string list" where
  "get_all_attribute_names depth S e include_optional include_classname =
     (case get_all_attributes depth S e include_optional of
        Inl x \<Rightarrow> Inl x
      | Inr attrs \<Rightarrow>
          Inr (map (\<lambda>a. build_name include_classname (attr_entity_name a) (attr_name a)) attrs))"

subsection \<open>The attribute region of an entity block\<close>

definition NO_ATTR :: "string list" where
  "NO_ATTR = [''WHERE'', ''INVERSE'', ''WR2'', ''WR3'', ''WR4'', ''WR5'', ''UNIQUE'', ''DERIVE'']"

text \<open>
  \<^verbatim>\<open>re.search(';(.*?)$', raw_data, re.DOTALL).groups()[0]\<close>: the text after the first
  semicolon. The lazy group stops at the first place where \<^verbatim>\<open>$\<close> matches, which is before
  a newline that ends the text, and at the end of the text otherwise. Without a
  semicolon the search gives \<^verbatim>\<open>None\<close> and \<^verbatim>\<open>.groups()\<close> raises.
\<close>

definition inner_raw_data :: "string \<Rightarrow> py_error + string" where
  "inner_raw_data raw_data =
     (if CHR '';'' \<notin> set raw_data then Inl AttributeError
      else
        (let rest = drop 1 (dropWhile (\<lambda>c. c \<noteq> CHR '';'') raw_data) in
         Inr (if rest \<noteq> [] \<and> last rest = NL then butlast rest else rest)))"

text \<open>\<^verbatim>\<open>min\<close> of a list: the least element, \<^verbatim>\<open>ValueError\<close> on an empty list. Strings
  compare lexicographically by code point.\<close>

definition py_min :: "'a::linorder list \<Rightarrow> py_error + 'a" where
  "py_min xs = (case xs of [] \<Rightarrow> Inl ValueError | x # rest \<Rightarrow> Inr (fold min rest x))"

definition attrs_str :: "string \<Rightarrow> py_error + string" where
  "attrs_str inner =
     py_min (map (\<lambda>noa. fst (partition_py inner ([NL, CHR '' ''] @ noa))) NO_ATTR)"

definition extract_attrs_str :: "string \<Rightarrow> py_error + string" where
  "extract_attrs_str raw_data =
     (case inner_raw_data raw_data of Inl x \<Rightarrow> Inl x | Inr inner \<Rightarrow> attrs_str inner)"

text \<open>The separator searched for a section keyword: a newline, a space, the keyword.\<close>

definition keyword_sep :: "string \<Rightarrow> string" where
  "keyword_sep noa = [NL, CHR '' ''] @ noa"

text \<open>\<open>sep\<close> occurs in \<open>s\<close> at offset \<open>i\<close>.\<close>

definition occurs_at :: "string \<Rightarrow> string \<Rightarrow> nat \<Rightarrow> bool" where
  "occurs_at sep s i = (take (length sep) (drop i s) = sep)"

text \<open>The length of the text before the first occurrence of a keyword's separator.\<close>

definition before_len :: "string \<Rightarrow> string \<Rightarrow> nat" where
  "before_len s noa = length (fst (partition_py s ([NL, CHR '' ''] @ noa)))"

subsection \<open>Supertype chains\<close>

text \<open>
  \<open>supertype_chain S es\<close>: the list \<open>es\<close> is the supertype chain of its first element,
  leaf first; every next element is the supertype the registry gives for the one
  before it, and the last element, the root, has no supertype.
\<close>

fun supertype_chain :: "IfcSchema \<Rightarrow> IfcSchemaEntity list \<Rightarrow> bool" where
  "supertype_chain S [] = False"
| "supertype_chain S [e] = (supertype_name e = None)"
| "supertype_chain S (e # s # es) = (supertype S e = Inr (Some s) \<and> supertype_chain S (s # es))"

text \<open>
  \<^verbatim>\<open>_read_entities\<close> stores every entity under its own name
  (\<^verbatim>\<open>ents[name] = IfcSchemaEntity(name, raw_entity_str, self)\<close>).
\<close>

definition keyed_by_name :: "IfcSchema \<Rightarrow> bool" where
  "keyed_by_name S = list_all (\<lambda>(k, e). ent_name e = k) (priv_entities_by_name S)"

text \<open>The attributes an entity contributes itself, with or without the optional ones.\<close>

definition own_attributes :: "bool \<Rightarrow> IfcSchemaEntity \<Rightarrow> IfcSchemaEntityAttribute list" where
  "own_attributes include_optional e =
     (if include_optional then attributes e else not_optional_attributes e)"

text \<open>An entity is registered when the registry returns it for its own name.\<close>

definition registered :: "IfcSchema \<Rightarrow> IfcSchemaEntity \<Rightarrow> bool" where
  "registered S e = (get_entity S (ent_name e) = Inr e)"

section \<open>Raw records\<close>

text \<open>
  A raw record is an \<^verbatim>\<open>ifcopenshell.entity_instance\<close>. The source reads from it: the
  answer of \<^verbatim>\<open>is_a(t)\<close>, which is true for the type of the record and for every
  supertype of it (\<open>ancestry\<close>, the type of the record first); the dictionary of
  \<^verbatim>\<open>get_info()\<close>; the inverse collections of relations; and the forward collections
  of member records. A relation points at its relating record with an attribute whose
  name depends on the kind of relation (\<^verbatim>\<open>RelatingBuildingElement\<close>,
  \<^verbatim>\<open>RelatingStructure\<close>, \<^verbatim>\<open>RelatingObject\<close>, \<^verbatim>\<open>RelatingType\<close>,
  \<^verbatim>\<open>RelatingPropertyDefinition\<close>); an attribute that the file leaves unset reads as
  \<^verbatim>\<open>None\<close>. Every collection is only read behind the \<^verbatim>\<open>is_a\<close> test that guarantees
  the record has it.
\<close>

datatype raw_entity = RawEntity
  (ancestry: "string list")
  (get_info: "(string \<times> py_value) list")
  (VoidsElements: "raw_relation list")
  (ContainedInStructure: "raw_relation list")
  (Decomposes: "raw_relation list")
  (IsDecomposedBy: "raw_relation list")
  (IsGroupedBy: "raw_relation list")
  (IsDefinedBy: "raw_relation list")
  (HasPropertySets: "raw_entity list option")
  (HasProperties: "raw_entity list")
  (Quantities: "raw_entity list")
and raw_relation = RawRelation
  (rel_ancestry: "string list")
  (relating: "raw_entity option")
  (RelatedObjects: "raw_entity list")

definition is_a :: "raw_entity \<Rightarrow> string \<Rightarrow> bool" where
  "is_a raw t = (t \<in> set (ancestry raw))"

definition rel_is_a :: "raw_relation \<Rightarrow> string \<Rightarrow> bool" where
  "rel_is_a rel t = (t \<in> set (rel_ancestry rel))"

abbreviation RelatingBuildingElement :: "raw_relation \<Rightarrow> raw_entity option" where
  "RelatingBuildingElement \<equiv> relating"

abbreviation RelatingStructure :: "raw_relation \<Rightarrow> raw_entity option" where
  "RelatingStructure \<equiv> relating"

abbreviation RelatingObject :: "raw_relation \<Rightarrow> raw_entity option" where
  "RelatingObject \<equiv> relating"

abbreviation RelatingType :: "raw_relation \<Rightarrow> raw_entity option" where
  "RelatingType \<equiv> relating"

abbreviation RelatingPropertyDefinition :: "raw_relation \<Rightarrow> raw_entity option" where
  "RelatingPropertyDefinition \<equiv> relating"

text \<open>A record with a type hierarchy and a dictionary, and no relation or member.\<close>

definition plain_record :: "string list \<Rightarrow> (string \<times> py_value) list \<Rightarrow> raw_entity" where
  "plain_record types d = RawEntity types d [] [] [] [] [] [] None [] []"

section \<open>The validation base (\<^verbatim>\<open>ifc_base_entity.py\<close>, \<^verbatim>\<open>tools.py\<close>)\<close>

record IfcBaseEntity =
  priv_raw :: raw_entity
  priv_schema :: "IfcSchema option"
  info :: "(string \<times> py_value) list"

text \<open>
  The arguments of the constructor are not typed: the first one is a raw record or
  anything else (\<open>None\<close> stands for every object that is not an
  \<^verbatim>\<open>entity_instance\<close>), the expected types are a tuple of names or anything else.
\<close>

datatype expected_types_arg = NotATuple | Tuple "string list"

text \<open>The loop over the expected types raises at the first name the record is not.\<close>

fun check_expected_types :: "raw_entity \<Rightarrow> string list \<Rightarrow> py_error + unit" where
  "check_expected_types raw [] = Inr ()"
| "check_expected_types raw (cur_expected_type # rest) =
     (if \<not> is_a raw cur_expected_type then Inl ValueError
      else check_expected_types raw rest)"

definition IfcBaseEntity_init ::
  "raw_entity option \<Rightarrow> IfcSchema option \<Rightarrow> expected_types_arg \<Rightarrow> py_error + IfcBaseEntity" where
  "IfcBaseEntity_init raw_obj_entity schema expected_types =
     (case raw_obj_entity of
        None \<Rightarrow> Inl ValueError
      | Some raw \<Rightarrow>
          (case expected_types of
             NotATuple \<Rightarrow> Inl ValueError
           | Tuple types \<Rightarrow>
               (case check_expected_types raw types of
                  Inl x \<Rightarrow> Inl x
                | Inr _ \<Rightarrow> Inr \<lparr>priv_raw = raw, priv_schema = schema, info = get_info raw\<rparr>)))"

definition type_name :: "'a IfcBaseEntity_scheme \<Rightarrow> py_value" where
  "type_name e = dict_get (info e) ''type''"

definition global_id :: "'a IfcBaseEntity_scheme \<Rightarrow> py_value" where
  "global_id e = dict_get (info e) ''GlobalId''"

definition name :: "'a IfcBaseEntity_scheme \<Rightarrow> py_value" where
  "name e = dict_get (info e) ''Name''"

definition description :: "'a IfcBaseEntity_scheme \<Rightarrow> py_value" where
  "description e = dict_get (info e) ''Description''"

text \<open>
  \<^verbatim>\<open>clean_str\<close>: \<^verbatim>\<open>None\<close> is returned as it is; in a string every punctuation character
  that occurs is replaced by the empty string, one character of \<^verbatim>\<open>string.punctuation\<close>
  after the other. The test \<^verbatim>\<open>cur_char in str_in\<close> raises \<^verbatim>\<open>TypeError\<close> on a value that
  is neither.
\<close>

definition clean_str :: "py_value \<Rightarrow> py_error + py_value" where
  "clean_str str_in =
     (case str_in of
        PyNone \<Rightarrow> Inr PyNone
      | PyStr s \<Rightarrow>
          Inr (PyStr (fold (\<lambda>cur_char str_in.
                              if cur_char \<in> set str_in then str_replace [cur_char] [] str_in
                              else str_in)
                           punctuation s))
      | _ \<Rightarrow> Inl TypeError)"

text \<open>
  \<^verbatim>\<open>clean_str(self.name).lower().replace(' ', '')\<close>; \<^verbatim>\<open>None\<close> has no method
  \<^verbatim>\<open>lower\<close>. The name is a parameter because a subclass overrides the property
  \<^verbatim>\<open>name\<close>.
\<close>

definition codename_of :: "py_value \<Rightarrow> py_error + string" where
  "codename_of the_name =
     (case clean_str the_name of
        Inl x \<Rightarrow> Inl x
      | Inr (PyStr s) \<Rightarrow> Inr (str_replace '' '' [] (str_lower s))
      | Inr _ \<Rightarrow> Inl AttributeError)"

definition codename :: "'a IfcBaseEntity_scheme \<Rightarrow> py_error + string" where
  "codename e = codename_of (name e)"

text \<open>\<^verbatim>\<open>self._schema.get_entity(self.type_name)\<close>; without a schema \<^verbatim>\<open>None\<close> has no
  method \<^verbatim>\<open>get_entity\<close>, and a type name that is no string is no key.\<close>

definition schema_metadata :: "'a IfcBaseEntity_scheme \<Rightarrow> py_error + IfcSchemaEntity" where
  "schema_metadata e =
     (case priv_schema e of
        None \<Rightarrow> Inl AttributeError
      | Some S \<Rightarrow> (case type_name e of PyStr t \<Rightarrow> get_entity S t | _ \<Rightarrow> Inl KeyError))"

section \<open>Entities (\<^verbatim>\<open>ifc_object_entity.py\<close>)\<close>

text \<open>
  A reference to a Python object: \<^verbatim>\<open>None\<close>, or the address of an object of the store.
  The five fields that an entity loads on first use hold such references.
\<close>

datatype ref = NoneRef | Ref nat

record IfcObjectEntity = IfcBaseEntity +
  priv_parent :: ref
  priv_kids :: ref
  priv_property_sets :: ref
  priv_quantities :: ref
  priv_object_type :: ref

definition IfcObjectEntity_init ::
  "raw_entity option \<Rightarrow> IfcSchema option \<Rightarrow> expected_types_arg \<Rightarrow> py_error + IfcObjectEntity" where
  "IfcObjectEntity_init raw_obj_entity schema expected_types =
     (case IfcBaseEntity_init raw_obj_entity schema expected_types of
        Inl x \<Rightarrow> Inl x
      | Inr b \<Rightarrow>
          Inr \<lparr>priv_raw = priv_raw b, priv_schema = priv_schema b, info = info b,
               priv_parent = NoneRef, priv_kids = NoneRef, priv_property_sets = NoneRef,
               priv_quantities = NoneRef, priv_object_type = NoneRef\<rparr>)"

text \<open>The default of the keyword argument \<^verbatim>\<open>expected_types\<close>.\<close>

definition default_expected_types :: expected_types_arg where
  "default_expected_types = Tuple [''IfcObject'']"

definition composition_type :: "IfcObjectEntity \<Rightarrow> py_value" where
  "composition_type e =
     (if is_a (priv_raw e) ''IfcSpatialStructureElement'' then dict_get (info e) ''CompositionType''
      else PyNone)"

definition is_element :: "IfcObjectEntity \<Rightarrow> bool" where
  "is_element e = (composition_type e = PyStr ''ELEMENT'')"

subsection \<open>Parent, kids and object type\<close>

definition get_relating_object :: "IfcObjectEntity \<Rightarrow> raw_entity option" where
  "get_relating_object e =
     (let raw = priv_raw e in
      if is_a raw ''IfcFeatureElementSubtraction'' \<and> length (VoidsElements raw) = 1
        then RelatingBuildingElement (VoidsElements raw ! 0)
      else if is_a raw ''IfcElement'' \<and> length (ContainedInStructure raw) = 1
        then RelatingStructure (ContainedInStructure raw ! 0)
      else if is_a raw ''IfcObjectDefinition'' \<and> length (Decomposes raw) = 1
        then RelatingObject (Decomposes raw ! 0)
      else None)"

definition load_parent :: "IfcObjectEntity \<Rightarrow> py_error + IfcObjectEntity option" where
  "load_parent e =
     (case get_relating_object e of
        None \<Rightarrow> Inr None
      | Some raw_parent_entity \<Rightarrow>
          (case IfcObjectEntity_init (Some raw_parent_entity) (priv_schema e) default_expected_types of
             Inl x \<Rightarrow> Inl x
           | Inr p \<Rightarrow> Inr (Some p)))"

definition get_related_objects :: "IfcObjectEntity \<Rightarrow> raw_entity list option" where
  "get_related_objects e =
     (let raw = priv_raw e in
      if is_a raw ''IfcObjectDefinition'' then
        (let entity_relations = (if is_a raw ''IfcZone'' then IsGroupedBy raw else IsDecomposedBy raw)
         in Some (concat (map RelatedObjects entity_relations)))
      else None)"

text \<open>Wrapping the records of a tuple one after the other; the first failure ends it.\<close>

fun wrap_entities :: "IfcSchema option \<Rightarrow> raw_entity list \<Rightarrow> py_error + IfcObjectEntity list" where
  "wrap_entities schema [] = Inr []"
| "wrap_entities schema (cur_raw # rest) =
     (case IfcObjectEntity_init (Some cur_raw) schema default_expected_types of
        Inl x \<Rightarrow> Inl x
      | Inr e \<Rightarrow> (case wrap_entities schema rest of Inl x \<Rightarrow> Inl x | Inr es \<Rightarrow> Inr (e # es)))"

definition load_kids :: "IfcObjectEntity \<Rightarrow> py_error + IfcObjectEntity list option" where
  "load_kids e =
     (case get_related_objects e of
        None \<Rightarrow> Inr None
      | Some raw_kid_entities \<Rightarrow>
          (case wrap_entities (priv_schema e) raw_kid_entities of
             Inl x \<Rightarrow> Inl x
           | Inr kids \<Rightarrow> Inr (Some kids)))"

definition load_object_type :: "IfcObjectEntity \<Rightarrow> py_error + IfcObjectEntity option" where
  "load_object_type e =
     (if is_a (priv_raw e) ''IfcObject'' then
        (case find (\<lambda>cur_rel. rel_is_a cur_rel ''IfcRelDefinesByType'') (IsDefinedBy (priv_raw e)) of
           None \<Rightarrow> Inr None
         | Some cur_rel \<Rightarrow>
             (case IfcObjectEntity_init (RelatingType cur_rel) (priv_schema e)
                     (Tuple [''IfcTypeProduct'']) of
                Inl x \<Rightarrow> Inl x
              | Inr t \<Rightarrow> Inr (Some t)))
      else Inr None)"

section \<open>Properties, property sets and quantities\<close>

subsection \<open>Properties (\<^verbatim>\<open>ifc_object_entity_property.py\<close>)\<close>

text \<open>
  The two property classes share their fields. \<open>priv_prop_name\<close> is the attribute name
  a type property stands for; a simple property has none. The fields that cache the
  value and the unit, and the reference to the owning set, are left out: they do not
  change what the accessors return.
\<close>

datatype property_class = IfcObjectEntitySimpleProperty | IfcObjectEntityTypeProperty

record IfcObjectEntityPropertyBase = IfcBaseEntity +
  property_class :: property_class
  priv_prop_name :: py_value

definition PropertyBase_create ::
  "raw_entity \<Rightarrow> IfcSchema option \<Rightarrow> py_value \<Rightarrow> py_error + IfcObjectEntityPropertyBase option" where
  "PropertyBase_create raw_data schema prop_name =
     (if is_a raw_data ''IfcSimpleProperty'' then
        (case IfcBaseEntity_init (Some raw_data) schema (Tuple [''IfcSimpleProperty'']) of
           Inl x \<Rightarrow> Inl x
         | Inr b \<Rightarrow>
             Inr (Some \<lparr>priv_raw = priv_raw b, priv_schema = priv_schema b, info = info b,
                        property_class = IfcObjectEntitySimpleProperty, priv_prop_name = PyNone\<rparr>))
      else if is_a raw_data ''IfcPropertySetDefinition'' then
        (case IfcBaseEntity_init (Some raw_data) schema (Tuple [''IfcPropertySetDefinition'']) of
           Inl x \<Rightarrow> Inl x
         | Inr b \<Rightarrow>
             Inr (Some \<lparr>priv_raw = priv_raw b, priv_schema = priv_schema b, info = info b,
                        property_class = IfcObjectEntityTypeProperty, priv_prop_name = prop_name\<rparr>))
      else Inr None)"

definition prop_name :: "IfcObjectEntityPropertyBase \<Rightarrow> py_value" where
  "prop_name p =
     (case property_class p of
        IfcObjectEntitySimpleProperty \<Rightarrow> name p
      | IfcObjectEntityTypeProperty \<Rightarrow> priv_prop_name p)"

definition prop_codename :: "IfcObjectEntityPropertyBase \<Rightarrow> py_error + string" where
  "prop_codename p = codename_of (prop_name p)"

text \<open>
  The value of a simple property is \<^verbatim>\<open>self.info['NominalValue'].wrappedValue\<close>, the value
  of a type property is \<^verbatim>\<open>self.info[self._prop_name]\<close>; a \<^verbatim>\<open>KeyError\<close> or an
  \<^verbatim>\<open>AttributeError\<close> is caught and leaves \<^verbatim>\<open>None\<close>.
\<close>

definition prop_value :: "IfcObjectEntityPropertyBase \<Rightarrow> py_value" where
  "prop_value p =
     (case property_class p of
        IfcObjectEntitySimpleProperty \<Rightarrow>
          (case map_of (info p) ''NominalValue'' of
             Some (PyInst t (Some v)) \<Rightarrow> v
           | _ \<Rightarrow> PyNone)
      | IfcObjectEntityTypeProperty \<Rightarrow>
          (case priv_prop_name p of
             PyStr n \<Rightarrow> (case map_of (info p) n of None \<Rightarrow> PyNone | Some v \<Rightarrow> v)
           | _ \<Rightarrow> PyNone))"

definition prop_unit :: "IfcObjectEntityPropertyBase \<Rightarrow> py_value" where
  "prop_unit p =
     (case property_class p of
        IfcObjectEntitySimpleProperty \<Rightarrow> dict_get (info p) ''Unit''
      | IfcObjectEntityTypeProperty \<Rightarrow> PyNone)"

subsection \<open>Property sets (\<^verbatim>\<open>ifc_object_entity_pset.py\<close>)\<close>

datatype pset_class = IfcObjectEntityPropertySet | IfcObjectEntityTypePropertySet

record IfcObjectEntityPropertySetBase = IfcBaseEntity +
  pset_class :: pset_class
  priv_properties :: ref

definition PropertySetBase_create ::
  "raw_entity \<Rightarrow> IfcSchema option \<Rightarrow> py_error + IfcObjectEntityPropertySetBase option" where
  "PropertySetBase_create raw_data schema =
     (if is_a raw_data ''IfcPropertySet'' then
        (case IfcBaseEntity_init (Some raw_data) schema (Tuple [''IfcPropertySet'']) of
           Inl x \<Rightarrow> Inl x
         | Inr b \<Rightarrow>
             Inr (Some \<lparr>priv_raw = priv_raw b, priv_schema = priv_schema b, info = info b,
                        pset_class = IfcObjectEntityPropertySet, priv_properties = NoneRef\<rparr>))
      else if is_a raw_data ''IfcPropertySetDefinition'' then
        (case IfcBaseEntity_init (Some raw_data) schema (Tuple [''IfcPropertySetDefinition'']) of
           Inl x \<Rightarrow> Inl x
         | Inr b \<Rightarrow>
             Inr (Some \<lparr>priv_raw = priv_raw b, priv_schema = priv_schema b, info = info b,
                        pset_class = IfcObjectEntityTypePropertySet, priv_properties = NoneRef\<rparr>))
      else Inr None)"

text \<open>
  The loop of \<^verbatim>\<open>_load_properties\<close>: one call of the factory for every pair of a raw
  record and a property name; what the factory does not recognise is dropped.
\<close>

fun create_properties ::
  "IfcSchema option \<Rightarrow> (raw_entity \<times> py_value) list \<Rightarrow> py_error + IfcObjectEntityPropertyBase list" where
  "create_properties schema [] = Inr []"
| "create_properties schema ((cur_prop, p_name) # rest) =
     (case PropertyBase_create cur_prop schema p_name of
        Inl x \<Rightarrow> Inl x
      | Inr prop \<Rightarrow>
          (case create_properties schema rest of
             Inl x \<Rightarrow> Inl x
           | Inr props \<Rightarrow> Inr (case prop of None \<Rightarrow> props | Some p \<Rightarrow> p # props)))"

definition load_properties ::
  "IfcObjectEntityPropertySetBase \<Rightarrow> py_error + IfcObjectEntityPropertyBase list" where
  "load_properties pset =
     (case pset_class pset of
        IfcObjectEntityPropertySet \<Rightarrow>
          create_properties (priv_schema pset)
            (map (\<lambda>cur_prop. (cur_prop, PyNone)) (HasProperties (priv_raw pset)))
      | IfcObjectEntityTypePropertySet \<Rightarrow>
          (case schema_metadata pset of
             Inl x \<Rightarrow> Inl x
           | Inr metadata \<Rightarrow>
               create_properties (priv_schema pset)
                 (map (\<lambda>p_name. (priv_raw pset, PyStr p_name)) (attribute_names metadata))))"

subsection \<open>Quantities (\<^verbatim>\<open>ifc_object_entity_quantity.py\<close>)\<close>

text \<open>The only quantity class, \<^verbatim>\<open>IfcObjectEntitySimpleQuantity\<close>, adds two caching fields
  to the base, which are left out.\<close>

type_synonym IfcObjectEntitySimpleQuantity = IfcBaseEntity

definition QuantityBase_create ::
  "raw_entity \<Rightarrow> IfcSchema option \<Rightarrow> py_error + IfcObjectEntitySimpleQuantity option" where
  "QuantityBase_create raw_data schema =
     (if is_a raw_data ''IfcPhysicalSimpleQuantity'' then
        (case IfcBaseEntity_init (Some raw_data) schema (Tuple [''IfcPhysicalSimpleQuantity'']) of
           Inl x \<Rightarrow> Inl x
         | Inr b \<Rightarrow> Inr (Some b))
      else Inr None)"

subsection \<open>Property sets and quantities of an entity\<close>

text \<open>
  The loop of \<^verbatim>\<open>_load_property_sets\<close> over \<^verbatim>\<open>IsDefinedBy\<close>: the relating definition of
  every \<^verbatim>\<open>IfcRelDefinesByProperties\<close> that is no \<^verbatim>\<open>IfcElementQuantity\<close>. A relation
  whose relating definition is unset raises, \<^verbatim>\<open>None\<close> having no method \<^verbatim>\<open>is_a\<close>.
\<close>

fun defined_property_sets :: "raw_relation list \<Rightarrow> py_error + raw_entity list" where
  "defined_property_sets [] = Inr []"
| "defined_property_sets (cur_rel # rest) =
     (if rel_is_a cur_rel ''IfcRelDefinesByProperties'' then
        (case RelatingPropertyDefinition cur_rel of
           None \<Rightarrow> Inl AttributeError
         | Some cur_raw_pset \<Rightarrow>
             (case defined_property_sets rest of
                Inl x \<Rightarrow> Inl x
              | Inr raw_psets \<Rightarrow>
                  Inr (if \<not> is_a cur_raw_pset ''IfcElementQuantity'' then cur_raw_pset # raw_psets
                       else raw_psets)))
      else defined_property_sets rest)"

fun create_property_sets ::
  "IfcSchema option \<Rightarrow> raw_entity list \<Rightarrow> py_error + IfcObjectEntityPropertySetBase list" where
  "create_property_sets schema [] = Inr []"
| "create_property_sets schema (cur_raw_pset # rest) =
     (case PropertySetBase_create cur_raw_pset schema of
        Inl x \<Rightarrow> Inl x
      | Inr pset \<Rightarrow>
          (case create_property_sets schema rest of
             Inl x \<Rightarrow> Inl x
           | Inr psets \<Rightarrow> Inr (case pset of None \<Rightarrow> psets | Some p \<Rightarrow> p # psets)))"

text \<open>
  \<^verbatim>\<open>_load_property_sets\<close>. The raw sets of a type object are its attribute
  \<^verbatim>\<open>HasPropertySets\<close>, which is \<^verbatim>\<open>None\<close> when unset, and \<^verbatim>\<open>len(None)\<close> raises. The
  result is \<^verbatim>\<open>None\<close> when there is no raw set, and a tuple otherwise.
\<close>

definition load_property_sets ::
  "IfcObjectEntity \<Rightarrow> py_error + IfcObjectEntityPropertySetBase list option" where
  "load_property_sets e =
     (let raw = priv_raw e;
          found =
            (if is_a raw ''IfcObject'' then
               (case defined_property_sets (IsDefinedBy raw) of
                  Inl x \<Rightarrow> Inl x | Inr raw_psets \<Rightarrow> Inr (Some raw_psets))
             else if is_a raw ''IfcTypeObject'' then Inr (HasPropertySets raw)
             else Inr (Some []))
      in case found of
           Inl x \<Rightarrow> Inl x
         | Inr None \<Rightarrow> Inl TypeError
         | Inr (Some raw_psets) \<Rightarrow>
             (if length raw_psets > 0 then
                (case create_property_sets (priv_schema e) raw_psets of
                   Inl x \<Rightarrow> Inl x
                 | Inr psets \<Rightarrow> Inr (Some psets))
              else Inr None))"

text \<open>\<^verbatim>\<open>_load_quantities\<close>: the element quantities among the relating definitions, then
  one quantity object for every member the factory recognises.\<close>

fun defined_element_quantities :: "raw_relation list \<Rightarrow> py_error + raw_entity list" where
  "defined_element_quantities [] = Inr []"
| "defined_element_quantities (cur_rel # rest) =
     (if rel_is_a cur_rel ''IfcRelDefinesByProperties'' then
        (case RelatingPropertyDefinition cur_rel of
           None \<Rightarrow> Inl AttributeError
         | Some d \<Rightarrow>
             (case defined_element_quantities rest of
                Inl x \<Rightarrow> Inl x
              | Inr found \<Rightarrow> Inr (if is_a d ''IfcElementQuantity'' then d # found else found)))
      else defined_element_quantities rest)"

fun create_quantities ::
  "IfcSchema option \<Rightarrow> raw_entity list \<Rightarrow> py_error + IfcObjectEntitySimpleQuantity list" where
  "create_quantities schema [] = Inr []"
| "create_quantities schema (cur_qty # rest) =
     (case QuantityBase_create cur_qty schema of
        Inl x \<Rightarrow> Inl x
      | Inr qty \<Rightarrow>
          (case create_quantities schema rest of
             Inl x \<Rightarrow> Inl x
           | Inr qties \<Rightarrow> Inr (case qty of None \<Rightarrow> qties | Some q \<Rightarrow> q # qties)))"

definition load_quantities ::
  "IfcObjectEntity \<Rightarrow> py_error + IfcObjectEntitySimpleQuantity list option" where
  "load_quantities e =
     (if is_a (priv_raw e) ''IfcObject'' then
        (case defined_element_quantities (IsDefinedBy (priv_raw e)) of
           Inl x \<Rightarrow> Inl x
         | Inr raw_elmt_qty \<Rightarrow>
             (case create_quantities (priv_schema e) (concat (map Quantities raw_elmt_qty)) of
                Inl x \<Rightarrow> Inl x
              | Inr all_quantities \<Rightarrow> Inr (Some all_quantities)))
      else Inr None)"

subsection \<open>Looking properties up\<close>

text \<open>
  The lookups below read \<^verbatim>\<open>self.property_sets\<close> and \<^verbatim>\<open>pset.properties\<close> of an entity
  that has loaded neither before, which evaluates the loaders. The argument
  \<^verbatim>\<open>pset_codename\<close> is a string or \<^verbatim>\<open>None\<close>.
\<close>

fun collect_properties ::
  "string option \<Rightarrow> IfcObjectEntityPropertySetBase list \<Rightarrow> py_error + IfcObjectEntityPropertyBase list" where
  "collect_properties pset_codename [] = Inr []"
| "collect_properties pset_codename (pset # rest) =
     (case (case pset_codename of
              None \<Rightarrow> Inr True
            | Some wanted \<Rightarrow> (case codename pset of Inl x \<Rightarrow> Inl x | Inr c \<Rightarrow> Inr (c = wanted))) of
        Inl x \<Rightarrow> Inl x
      | Inr False \<Rightarrow> collect_properties pset_codename rest
      | Inr True \<Rightarrow>
          (case load_properties pset of
             Inl x \<Rightarrow> Inl x
           | Inr props \<Rightarrow>
               (case collect_properties pset_codename rest of
                  Inl x \<Rightarrow> Inl x
                | Inr others \<Rightarrow> Inr (props @ others))))"

definition get_properties ::
  "IfcObjectEntity \<Rightarrow> string option \<Rightarrow> py_error + IfcObjectEntityPropertyBase list" where
  "get_properties e pset_codename =
     (case load_property_sets e of
        Inl x \<Rightarrow> Inl x
      | Inr None \<Rightarrow> Inr []
      | Inr (Some psets) \<Rightarrow> collect_properties pset_codename psets)"

fun first_property ::
  "string \<Rightarrow> IfcObjectEntityPropertyBase list \<Rightarrow> py_error + IfcObjectEntityPropertyBase option" where
  "first_property property_codename [] = Inr None"
| "first_property property_codename (prop # rest) =
     (case prop_codename prop of
        Inl x \<Rightarrow> Inl x
      | Inr c \<Rightarrow> (if property_codename = c then Inr (Some prop)
                  else first_property property_codename rest))"

definition get_property ::
  "IfcObjectEntity \<Rightarrow> string \<Rightarrow> string option \<Rightarrow> py_error + IfcObjectEntityPropertyBase option" where
  "get_property e property_codename pset_codename =
     (case get_properties e pset_codename of
        Inl x \<Rightarrow> Inl x
      | Inr props \<Rightarrow> first_property property_codename props)"

definition get_property_value ::
  "IfcObjectEntity \<Rightarrow> string \<Rightarrow> string option \<Rightarrow> py_error + (py_value \<times> py_value)" where
  "get_property_value e property_codename pset_codename =
     (case get_property e property_codename pset_codename of
        Inl x \<Rightarrow> Inl x
      | Inr None \<Rightarrow> Inr (PyNone, PyNone)
      | Inr (Some prop) \<Rightarrow> Inr (prop_value prop, prop_unit prop))"

text \<open>\<^verbatim>\<open>x or ()\<close> for a tuple or \<^verbatim>\<open>None\<close>.\<close>

definition tuple_or_empty :: "'a list option \<Rightarrow> 'a list" where
  "tuple_or_empty t = (case t of None \<Rightarrow> [] | Some xs \<Rightarrow> xs)"

text \<open>The properties of the sets that a filter selects, given the codename and the
  properties of every set.\<close>

definition selected_properties ::
  "string option \<Rightarrow> string list \<Rightarrow> 'p list list \<Rightarrow> 'p list" where
  "selected_properties pset_codename cns pss =
     concat (map snd (filter (\<lambda>(cn, ps). pset_codename = None \<or> pset_codename = Some cn)
                             (zip cns pss)))"

section \<open>The reader (\<^verbatim>\<open>ifc_data_reader.py\<close>)\<close>

text \<open>
  The opened file: its records in file order, and the type names that \<^verbatim>\<open>by_type\<close>
  accepts. \<^verbatim>\<open>by_type(t)\<close> gives the records that are of type \<open>t\<close>, subtypes included,
  and raises \<^verbatim>\<open>RuntimeError\<close> for a name it does not know.
\<close>

record ifcos_file =
  file_records :: "raw_entity list"
  file_type_names :: "string list"

definition by_type :: "ifcos_file \<Rightarrow> string \<Rightarrow> py_error + raw_entity list" where
  "by_type f t =
     (if t \<notin> set (file_type_names f) then Inl RuntimeError
      else Inr (filter (\<lambda>raw. is_a raw t) (file_records f)))"

record IfcDataReader =
  priv_ifcos_file :: ifcos_file
  ifc_schema :: IfcSchema

text \<open>The filter of \<^verbatim>\<open>_read_entities\<close>: \<^verbatim>\<open>cur_entity.parent.global_id\<close> raises when the
  entity has no parent.\<close>

fun with_parent :: "IfcObjectEntity \<Rightarrow> IfcObjectEntity list \<Rightarrow> py_error + IfcObjectEntity list" where
  "with_parent parent_entity [] = Inr []"
| "with_parent parent_entity (cur_entity # rest) =
     (case load_parent cur_entity of
        Inl x \<Rightarrow> Inl x
      | Inr None \<Rightarrow> Inl AttributeError
      | Inr (Some p) \<Rightarrow>
          (case with_parent parent_entity rest of
             Inl x \<Rightarrow> Inl x
           | Inr entities \<Rightarrow>
               Inr (if global_id p = global_id parent_entity then cur_entity # entities
                    else entities)))"

definition read_entities ::
  "IfcDataReader \<Rightarrow> string \<Rightarrow> IfcObjectEntity option \<Rightarrow> py_error + IfcObjectEntity list" where
  "read_entities reader entity_name parent_entity =
     (case by_type (priv_ifcos_file reader) entity_name of
        Inl x \<Rightarrow> Inl ValueError
      | Inr raw_entities \<Rightarrow>
          (case wrap_entities (Some (ifc_schema reader)) raw_entities of
             Inl x \<Rightarrow> Inl x
           | Inr entities \<Rightarrow>
               (case parent_entity of
                  None \<Rightarrow> Inr entities
                | Some p \<Rightarrow> with_parent p entities)))"

text \<open>
  \<^verbatim>\<open>read_sites\<close> calls \<^verbatim>\<open>cur_ent.parent.is_a('IfcSite')\<close> on an \<^verbatim>\<open>IfcObjectEntity\<close>.
  Neither \<^verbatim>\<open>IfcObjectEntity\<close> nor \<^verbatim>\<open>IfcBaseEntity\<close> defines an attribute \<^verbatim>\<open>is_a\<close> (it is
  a method of the raw record, \<^verbatim>\<open>self._raw\<close>), and neither defines \<^verbatim>\<open>__getattr__\<close>: the
  attribute lookup raises.
\<close>

definition IfcObjectEntity_is_a :: "IfcObjectEntity \<Rightarrow> string \<Rightarrow> py_error + bool" where
  "IfcObjectEntity_is_a e t = Inl AttributeError"

text \<open>The loop of \<^verbatim>\<open>read_sites\<close>. The conditions of the \<^verbatim>\<open>elif\<close> are evaluated from the
  left, and the call of \<^verbatim>\<open>is_a\<close> only when the two before it hold.\<close>

fun site_entities :: "bool \<Rightarrow> IfcObjectEntity list \<Rightarrow> py_error + IfcObjectEntity list" where
  "site_entities undivided_only [] = Inr []"
| "site_entities undivided_only (cur_ent # rest) =
     (if \<not> undivided_only \<or> (undivided_only \<and> is_element cur_ent) then
        (case site_entities undivided_only rest of
           Inl x \<Rightarrow> Inl x
         | Inr found \<Rightarrow> Inr (cur_ent # found))
      else
        (case load_parent cur_ent of
           Inl x \<Rightarrow> Inl x
         | Inr None \<Rightarrow> site_entities undivided_only rest
         | Inr (Some p) \<Rightarrow>
             (if is_element p then
                (case IfcObjectEntity_is_a p ''IfcSite'' of
                   Inl x \<Rightarrow> Inl x
                 | Inr is_site \<Rightarrow>
                     (case site_entities undivided_only rest of
                        Inl x \<Rightarrow> Inl x
                      | Inr found \<Rightarrow> Inr (if is_site then p # found else found)))
              else site_entities undivided_only rest)))"

definition read_sites :: "IfcDataReader \<Rightarrow> bool \<Rightarrow> py_error + IfcObjectEntity list" where
  "read_sites reader undivided_only =
     (case read_entities reader ''IfcSite'' None of
        Inl x \<Rightarrow> Inl x
      | Inr sites \<Rightarrow> site_entities undivided_only sites)"

section \<open>The store and the accessors that load on first use\<close>

text \<open>
  The objects that the loaders of an entity create live in a store; an address is the
  position of its object. A new object gets the next address, so that two objects
  created by two calls are never the same object, whatever they hold. The values that
  the loaders compute are those of the sections above; the store adds the identity of
  the objects. The notice that \<^verbatim>\<open>_print_debug_warning\<close> prints is not part of the state.
\<close>

datatype py_object =
  EntityObject IfcObjectEntity
| PropertySetObject IfcObjectEntityPropertySetBase
| QuantityObject IfcObjectEntitySimpleQuantity
| TupleObject "ref list"

type_synonym store = "py_object list"

definition alloc :: "py_object \<Rightarrow> store \<Rightarrow> ref \<times> store" where
  "alloc obj st = (Ref (length st), st @ [obj])"

fun alloc_all :: "py_object list \<Rightarrow> store \<Rightarrow> ref list \<times> store" where
  "alloc_all [] st = ([], st)"
| "alloc_all (obj # objs) st =
     (case alloc obj st of
        (r, st') \<Rightarrow> (case alloc_all objs st' of (rs, st'') \<Rightarrow> (r # rs, st'')))"

text \<open>A tuple of new objects: the elements are created in order, the tuple last.\<close>

definition alloc_tuple :: "py_object list \<Rightarrow> store \<Rightarrow> ref \<times> store" where
  "alloc_tuple objs st = (case alloc_all objs st of (rs, st') \<Rightarrow> alloc (TupleObject rs) st')"

text \<open>What a loader returns: \<^verbatim>\<open>None\<close>, a new object, or a new tuple of new objects.\<close>

definition new_object ::
  "('a \<Rightarrow> py_object) \<Rightarrow> py_error + 'a option \<Rightarrow> store \<Rightarrow> py_error + ref \<times> store" where
  "new_object as_object loaded st =
     (case loaded of
        Inl x \<Rightarrow> Inl x
      | Inr None \<Rightarrow> Inr (NoneRef, st)
      | Inr (Some v) \<Rightarrow> Inr (alloc (as_object v) st))"

definition new_tuple ::
  "('a \<Rightarrow> py_object) \<Rightarrow> py_error + 'a list option \<Rightarrow> store \<Rightarrow> py_error + ref \<times> store" where
  "new_tuple as_object loaded st =
     (case loaded of
        Inl x \<Rightarrow> Inl x
      | Inr None \<Rightarrow> Inr (NoneRef, st)
      | Inr (Some vs) \<Rightarrow> Inr (alloc_tuple (map as_object vs) st))"

text \<open>
  The pattern of the five properties:
  \<^verbatim>\<open>if self._x is None: self._x = self._load_x()\<close>, then \<^verbatim>\<open>return self._x\<close>. An access
  takes the entity and the store and returns the reference with the entity and the
  store as the access leaves them.
\<close>

definition memoized ::
  "(IfcObjectEntity \<Rightarrow> ref) \<Rightarrow> (IfcObjectEntity \<Rightarrow> ref \<Rightarrow> IfcObjectEntity)
     \<Rightarrow> (IfcObjectEntity \<Rightarrow> store \<Rightarrow> py_error + ref \<times> store)
     \<Rightarrow> IfcObjectEntity \<times> store \<Rightarrow> py_error + ref \<times> IfcObjectEntity \<times> store" where
  "memoized field assign load state =
     (case state of
        (self, st) \<Rightarrow>
          (if field self = NoneRef then
             (case load self st of
                Inl x \<Rightarrow> Inl x
              | Inr (r, st') \<Rightarrow> Inr (r, assign self r, st'))
           else Inr (field self, self, st)))"

definition object_type ::
  "IfcObjectEntity \<times> store \<Rightarrow> py_error + ref \<times> IfcObjectEntity \<times> store" where
  "object_type =
     memoized priv_object_type (\<lambda>self r. self\<lparr>priv_object_type := r\<rparr>)
       (\<lambda>self. new_object EntityObject (load_object_type self))"

definition parent ::
  "IfcObjectEntity \<times> store \<Rightarrow> py_error + ref \<times> IfcObjectEntity \<times> store" where
  "parent =
     memoized priv_parent (\<lambda>self r. self\<lparr>priv_parent := r\<rparr>)
       (\<lambda>self. new_object EntityObject (load_parent self))"

definition kids ::
  "IfcObjectEntity \<times> store \<Rightarrow> py_error + ref \<times> IfcObjectEntity \<times> store" where
  "kids =
     memoized priv_kids (\<lambda>self r. self\<lparr>priv_kids := r\<rparr>)
       (\<lambda>self. new_tuple EntityObject (load_kids self))"

definition property_sets ::
  "IfcObjectEntity \<times> store \<Rightarrow> py_error + ref \<times> IfcObjectEntity \<times> store" where
  "property_sets =
     memoized priv_property_sets (\<lambda>self r. self\<lparr>priv_property_sets := r\<rparr>)
       (\<lambda>self. new_tuple PropertySetObject (load_property_sets self))"

definition quantities ::
  "IfcObjectEntity \<times> store \<Rightarrow> py_error + ref \<times> IfcObjectEntity \<times> store" where
  "quantities =
     memoized priv_quantities (\<lambda>self r. self\<lparr>priv_quantities := r\<rparr>)
       (\<lambda>self. new_tuple QuantityObject (load_quantities self))"

text \<open>The access number \<open>n + 1\<close> in a row of accesses to one property.\<close>

fun access_after ::
  "(IfcObjectEntity \<times> store \<Rightarrow> py_error + ref \<times> IfcObjectEntity \<times> store) \<Rightarrow> nat
     \<Rightarrow> IfcObjectEntity \<times> store \<Rightarrow> py_error + ref \<times> IfcObjectEntity \<times> store" where
  "access_after accessor 0 state = accessor state"
| "access_after accessor (Suc n) state =
     (case accessor state of
        Inl x \<Rightarrow> Inl x
      | Inr (r, state') \<Rightarrow> access_after accessor n state')"

section \<open>Example records\<close>

subsection \<open>An entity block and a registry\<close>

text \<open>An entity block in which \<^verbatim>\<open>UNIQUE\<close> comes before \<^verbatim>\<open>WHERE\<close>, and its text after the
  header.\<close>

definition example_block :: string where
  "example_block =
     ''IfcE;'' @ [NL, TAB] @ ''A : B;'' @ [NL] @ '' UNIQUE'' @ [NL, TAB] @ ''U;''
       @ [NL] @ '' WHERE'' @ [NL, TAB] @ ''W;'' @ [NL]"

definition example_inner :: string where
  "example_inner =
     [NL, TAB] @ ''A : B;'' @ [NL] @ '' UNIQUE'' @ [NL, TAB] @ ''U;''
       @ [NL] @ '' WHERE'' @ [NL, TAB] @ ''W;''"

text \<open>A registry of three entities, \<^verbatim>\<open>IfcProduct\<close> under \<^verbatim>\<open>IfcObject\<close> under \<^verbatim>\<open>IfcRoot\<close>.\<close>

definition example_root :: IfcSchemaEntity where
  "example_root =
     \<lparr>ent_name = ''IfcRoot'', supertype_name = None,
      priv_attributes_by_name = [(''GlobalId'', ''IfcGloballyUniqueId''), (''Name'', ''OPTIONAL IfcLabel'')]\<rparr>"

definition example_object :: IfcSchemaEntity where
  "example_object =
     \<lparr>ent_name = ''IfcObject'', supertype_name = Some ''IfcRoot'',
      priv_attributes_by_name = [(''ObjectType'', ''OPTIONAL IfcLabel'')]\<rparr>"

definition example_product :: IfcSchemaEntity where
  "example_product =
     \<lparr>ent_name = ''IfcProduct'', supertype_name = Some ''IfcObject'',
      priv_attributes_by_name = [(''Representation'', ''OPTIONAL IfcProductRepresentation''),
                                 (''Name'', ''IfcLabel'')]\<rparr>"

definition example_schema :: IfcSchema where
  "example_schema =
     \<lparr>version = ''IFC2X3'',
      priv_defined_types_by_name = [],
      priv_entities_by_name =
        [(''IfcRoot'', example_root), (''IfcObject'', example_object),
         (''IfcProduct'', example_product)]\<rparr>"

subsection \<open>Objects as the constructors build them\<close>

text \<open>The entity that the constructor builds for a raw record, without a schema.\<close>

definition wrap :: "raw_entity \<Rightarrow> IfcObjectEntity" where
  "wrap raw =
     \<lparr>priv_raw = raw, priv_schema = None, info = get_info raw,
      priv_parent = NoneRef, priv_kids = NoneRef, priv_property_sets = NoneRef,
      priv_quantities = NoneRef, priv_object_type = NoneRef\<rparr>"

text \<open>The entity that the constructor builds for a raw record and a schema.\<close>

definition wrap_in :: "IfcSchema \<Rightarrow> raw_entity \<Rightarrow> IfcObjectEntity" where
  "wrap_in S raw =
     \<lparr>priv_raw = raw, priv_schema = Some S, info = get_info raw,
      priv_parent = NoneRef, priv_kids = NoneRef, priv_property_sets = NoneRef,
      priv_quantities = NoneRef, priv_object_type = NoneRef\<rparr>"

text \<open>The property set and the property that the factories build for a raw record,
  without a schema.\<close>

definition plain_set :: "raw_entity \<Rightarrow> IfcObjectEntityPropertySetBase" where
  "plain_set raw =
     \<lparr>priv_raw = raw, priv_schema = None, info = get_info raw,
      pset_class = IfcObjectEntityPropertySet, priv_properties = NoneRef\<rparr>"

definition simple_property :: "raw_entity \<Rightarrow> IfcObjectEntityPropertyBase" where
  "simple_property raw =
     \<lparr>priv_raw = raw, priv_schema = None, info = get_info raw,
      property_class = IfcObjectEntitySimpleProperty, priv_prop_name = PyNone\<rparr>"

subsection \<open>Records of a small building\<close>

text \<open>A door, and wrapped records with and without a display name.\<close>

definition example_door :: raw_entity where
  "example_door =
     plain_record
       [''IfcDoor'', ''IfcBuildingElement'', ''IfcElement'', ''IfcProduct'', ''IfcObject'',
        ''IfcObjectDefinition'', ''IfcRoot'']
       [(''type'', PyStr ''IfcDoor''), (''GlobalId'', PyStr ''2idC0G3ezCdhA9WVjWe$f4''),
        (''Name'', PyStr ''M_Single-Flush: 0915 x 2134mm''), (''Description'', PyNone)]"

definition example_door_entity :: IfcBaseEntity where
  "example_door_entity =
     \<lparr>priv_raw = example_door, priv_schema = None, info = get_info example_door\<rparr>"

definition example_unnamed_entity :: IfcBaseEntity where
  "example_unnamed_entity =
     \<lparr>priv_raw = plain_record [''IfcPropertySet''] [(''type'', PyStr ''IfcPropertySet''), (''Name'', PyNone)],
      priv_schema = None,
      info = [(''type'', PyStr ''IfcPropertySet''), (''Name'', PyNone)]\<rparr>"

text \<open>Records of a small building: a storey, a wall, openings, and the relations between them.\<close>

definition example_storey :: raw_entity where
  "example_storey =
     plain_record
       [''IfcBuildingStorey'', ''IfcSpatialStructureElement'', ''IfcProduct'', ''IfcObject'',
        ''IfcObjectDefinition'', ''IfcRoot'']
       [(''type'', PyStr ''IfcBuildingStorey''), (''Name'', PyStr ''Level 1''),
        (''CompositionType'', PyStr ''ELEMENT'')]"

definition example_wall :: raw_entity where
  "example_wall =
     plain_record
       [''IfcWall'', ''IfcBuildingElement'', ''IfcElement'', ''IfcProduct'', ''IfcObject'',
        ''IfcObjectDefinition'', ''IfcRoot'']
       [(''type'', PyStr ''IfcWall''), (''Name'', PyStr ''Basic Wall'')]"

definition opening_types :: "string list" where
  "opening_types =
     [''IfcOpeningElement'', ''IfcFeatureElementSubtraction'', ''IfcFeatureElement'',
      ''IfcElement'', ''IfcProduct'', ''IfcObject'', ''IfcObjectDefinition'', ''IfcRoot'']"

definition contained_in_storey :: raw_relation where
  "contained_in_storey =
     RawRelation [''IfcRelContainedInSpatialStructure'', ''IfcRelConnects'', ''IfcRelationship'', ''IfcRoot'']
       (Some example_storey) []"

definition voids_wall :: raw_relation where
  "voids_wall =
     RawRelation [''IfcRelVoidsElement'', ''IfcRelConnects'', ''IfcRelationship'', ''IfcRoot'']
       (Some example_wall) []"

text \<open>An opening that voids nothing and is contained in a storey.\<close>

definition example_loose_opening :: raw_entity where
  "example_loose_opening =
     RawEntity opening_types [(''type'', PyStr ''IfcOpeningElement''), (''Name'', PyStr ''Opening'')]
       [] [contained_in_storey] [] [] [] [] None [] []"

text \<open>An opening that voids a wall and is contained in a storey.\<close>

definition example_wall_opening :: raw_entity where
  "example_wall_opening =
     RawEntity opening_types [(''type'', PyStr ''IfcOpeningElement''), (''Name'', PyStr ''Opening'')]
       [voids_wall] [contained_in_storey] [] [] [] [] None [] []"

text \<open>A space that decomposes a storey, and a project, which has no parent.\<close>

definition example_space :: raw_entity where
  "example_space =
     RawEntity
       [''IfcSpace'', ''IfcSpatialStructureElement'', ''IfcProduct'', ''IfcObject'',
        ''IfcObjectDefinition'', ''IfcRoot'']
       [(''type'', PyStr ''IfcSpace''), (''Name'', PyStr ''42''), (''CompositionType'', PyStr ''ELEMENT'')]
       [] []
       [RawRelation [''IfcRelAggregates'', ''IfcRelDecomposes'', ''IfcRelationship'', ''IfcRoot'']
          (Some example_storey) []]
       [] [] [] None [] []"

definition example_project :: raw_entity where
  "example_project =
     plain_record [''IfcProject'', ''IfcObject'', ''IfcObjectDefinition'', ''IfcRoot'']
       [(''type'', PyStr ''IfcProject''), (''Name'', PyStr ''Project'')]"

definition site_types :: "string list" where
  "site_types =
     [''IfcSite'', ''IfcSpatialStructureElement'', ''IfcProduct'', ''IfcObject'',
      ''IfcObjectDefinition'', ''IfcRoot'']"

text \<open>An undivided site and a site complex whose parent it is.\<close>

definition example_site :: raw_entity where
  "example_site =
     plain_record site_types
       [(''type'', PyStr ''IfcSite''), (''GlobalId'', PyStr ''site-1''), (''Name'', PyStr ''Site''),
        (''CompositionType'', PyStr ''ELEMENT'')]"

definition example_site_complex :: raw_entity where
  "example_site_complex =
     RawEntity site_types
       [(''type'', PyStr ''IfcSite''), (''GlobalId'', PyStr ''site-2''), (''Name'', PyStr ''Sites''),
        (''CompositionType'', PyStr ''COMPLEX'')]
       [] []
       [RawRelation [''IfcRelAggregates'', ''IfcRelDecomposes'', ''IfcRelationship'', ''IfcRoot'']
          (Some example_site) []]
       [] [] [] None [] []"

definition example_reader :: IfcDataReader where
  "example_reader =
     \<lparr>priv_ifcos_file =
        \<lparr>file_records = [example_site, example_site_complex],
         file_type_names = [''IfcSite'', ''IfcProject'']\<rparr>,
      ifc_schema = example_schema\<rparr>"

text \<open>A door with two property sets, \<^verbatim>\<open>Dimensions\<close> and \<^verbatim>\<open>Identity Data\<close>.\<close>

definition property_types :: "string list" where
  "property_types = [''IfcPropertySingleValue'', ''IfcSimpleProperty'', ''IfcProperty'']"

definition pset_types :: "string list" where
  "pset_types = [''IfcPropertySet'', ''IfcPropertySetDefinition'', ''IfcPropertyDefinition'', ''IfcRoot'']"

definition example_height :: raw_entity where
  "example_height =
     plain_record property_types
       [(''type'', PyStr ''IfcPropertySingleValue''), (''Name'', PyStr ''Height''),
        (''NominalValue'', PyInst ''IfcLengthMeasure'' (Some (PyInt 2110))), (''Unit'', PyNone)]"

definition example_width :: raw_entity where
  "example_width =
     plain_record property_types
       [(''type'', PyStr ''IfcPropertySingleValue''), (''Name'', PyStr ''Width''),
        (''NominalValue'', PyInst ''IfcLengthMeasure'' (Some (PyInt 910))), (''Unit'', PyNone)]"

definition example_mark :: raw_entity where
  "example_mark =
     plain_record property_types
       [(''type'', PyStr ''IfcPropertySingleValue''), (''Name'', PyStr ''Mark''),
        (''NominalValue'', PyInst ''IfcText'' (Some (PyStr ''D1''))), (''Unit'', PyNone)]"

definition example_dimensions :: raw_entity where
  "example_dimensions =
     RawEntity pset_types [(''type'', PyStr ''IfcPropertySet''), (''Name'', PyStr ''Dimensions'')]
       [] [] [] [] [] [] None [example_height, example_width] []"

definition example_identity :: raw_entity where
  "example_identity =
     RawEntity pset_types [(''type'', PyStr ''IfcPropertySet''), (''Name'', PyStr ''Identity Data'')]
       [] [] [] [] [] [] None [example_mark] []"

definition defines_by :: "raw_entity \<Rightarrow> raw_relation" where
  "defines_by d =
     RawRelation [''IfcRelDefinesByProperties'', ''IfcRelDefines'', ''IfcRelationship'', ''IfcRoot'']
       (Some d) []"

definition example_property_door :: raw_entity where
  "example_property_door =
     RawEntity
       [''IfcDoor'', ''IfcBuildingElement'', ''IfcElement'', ''IfcProduct'', ''IfcObject'',
        ''IfcObjectDefinition'', ''IfcRoot'']
       [(''type'', PyStr ''IfcDoor''), (''Name'', PyStr ''Door'')]
       [] [] [] [] [] [defines_by example_dimensions, defines_by example_identity] None [] []"

text \<open>A door style with a type-level property set.\<close>

definition example_lining :: raw_entity where
  "example_lining =
     plain_record
       [''IfcDoorLiningProperties'', ''IfcPropertySetDefinition'', ''IfcPropertyDefinition'', ''IfcRoot'']
       [(''type'', PyStr ''IfcDoorLiningProperties''), (''Name'', PyStr ''Lining''),
        (''LiningDepth'', PyInt 50)]"

definition example_door_style :: raw_entity where
  "example_door_style =
     RawEntity
       [''IfcDoorStyle'', ''IfcTypeProduct'', ''IfcTypeObject'', ''IfcObjectDefinition'', ''IfcRoot'']
       [(''type'', PyStr ''IfcDoorStyle''), (''Name'', PyStr ''Style'')]
       [] [] [] [] [] [] (Some [example_lining]) [] []"

text \<open>A wall whose only property set has no name.\<close>

definition example_unnamed_set :: raw_entity where
  "example_unnamed_set =
     RawEntity pset_types [(''type'', PyStr ''IfcPropertySet''), (''Name'', PyNone)]
       [] [] [] [] [] [] None [example_height] []"

definition example_property_wall :: raw_entity where
  "example_property_wall =
     RawEntity
       [''IfcWall'', ''IfcBuildingElement'', ''IfcElement'', ''IfcProduct'', ''IfcObject'',
        ''IfcObjectDefinition'', ''IfcRoot'']
       [(''type'', PyStr ''IfcWall''), (''Name'', PyStr ''Wall'')]
       [] [] [] [] [] [defines_by example_unnamed_set] None [] []"

section \<open>Properties of the schema objects\<close>

subsection \<open>Select types: member names\<close>

text \<open>
  C7, as the claim is worded, at a member list that repeats a name: the accessor only
  sorts, so the repeated name is returned twice.
\<close>

theorem entity_names_repeated_member:
  "entity_names \<lparr>st_name = ''IfcUnit'', st_raw_types = Some ''IfcNamedUnit,IfcNamedUnit''\<rparr>
     = Inr [''IfcNamedUnit'', ''IfcNamedUnit'']
   \<and> \<not> distinct [''IfcNamedUnit'', ''IfcNamedUnit'']"
  by (simp add: entity_names_def NL_def TAB_def)

text \<open>
  C7, amended: for every select type built with a raw member text, \<open>entity_names\<close>
  returns the comma-separated members of the text (newline-tab pairs removed) in
  ascending order, each as often as the text lists it; the result is free of duplicates
  exactly when the member list is.
\<close>

theorem entity_names_sorted_members:
  "st_raw_types t = Some raw \<Longrightarrow>
     \<exists>names. entity_names t = Inr names \<and> sorted names
       \<and> mset names = mset (str_split (CHR '','') (str_replace [NL, TAB] [] raw))
       \<and> (distinct names \<longleftrightarrow> distinct (str_split (CHR '','') (str_replace [NL, TAB] [] raw)))"
  by (simp add: entity_names_def)

theorem entity_names_sorted_members_witness:
  "st_raw_types \<lparr>st_name = ''IfcUnit'',
      st_raw_types = Some (''IfcDerivedUnit'' @ [NL, TAB] @ '',IfcNamedUnit'' @ [NL, TAB] @ '',IfcMonetaryUnit'')\<rparr>
     = Some (''IfcDerivedUnit'' @ [NL, TAB] @ '',IfcNamedUnit'' @ [NL, TAB] @ '',IfcMonetaryUnit'')
   \<and> (\<exists>names. entity_names \<lparr>st_name = ''IfcUnit'',
      st_raw_types = Some (''IfcDerivedUnit'' @ [NL, TAB] @ '',IfcNamedUnit'' @ [NL, TAB] @ '',IfcMonetaryUnit'')\<rparr> = Inr names
        \<and> sorted names
        \<and> mset names = mset [''IfcDerivedUnit'', ''IfcNamedUnit'', ''IfcMonetaryUnit'']
        \<and> distinct names)"
  using entity_names_sorted_members
    [of "\<lparr>st_name = ''IfcUnit'',
      st_raw_types = Some (''IfcDerivedUnit'' @ [NL, TAB] @ '',IfcNamedUnit'' @ [NL, TAB] @ '',IfcMonetaryUnit'')\<rparr>"
        "''IfcDerivedUnit'' @ [NL, TAB] @ '',IfcNamedUnit'' @ [NL, TAB] @ '',IfcMonetaryUnit''"]
  by (simp add: NL_def TAB_def)

subsection \<open>Defined types: references\<close>

lemma take_one_member: "take (Suc 0) s = [c] \<Longrightarrow> c \<in> set s"
  by (cases s) auto

lemma re_split_atomic:
  "CHR '' '' \<notin> set s \<Longrightarrow> CHR ''('' \<notin> set s \<Longrightarrow> re_split s = [s]"
  by (induction s) (auto dest: take_one_member)

lemma is_ref_iff:
  "is_ref d \<longleftrightarrow>
     set (re_split (dt_raw_value d)) \<inter> set SIMPLE_TYPES = {} \<or> startswith (dt_raw_value d) ''#''"
  by (auto simp add: is_ref_def dt_type_name_def Let_def startswith_def)

lemma simple_type_no_hash: "s \<in> set SIMPLE_TYPES \<Longrightarrow> \<not> startswith s ''#''"
  by (auto simp add: SIMPLE_TYPES_def startswith_def)

text \<open>
  C6, as the claim is worded, at the raw expression \<^verbatim>\<open>STRING(255)\<close>: the expression is
  not one of the six primitive names, yet \<open>is_ref\<close> is false, because the expression is
  cut into tokens and one of them is \<^verbatim>\<open>STRING\<close>.
\<close>

theorem is_ref_sized_string:
  "dt_raw_value \<lparr>dt_name = ''IfcLabel'', dt_raw_value = ''STRING(255)''\<rparr> \<notin> set SIMPLE_TYPES
   \<and> \<not> is_ref \<lparr>dt_name = ''IfcLabel'', dt_raw_value = ''STRING(255)''\<rparr>"
  by (simp add: is_ref_def dt_type_name_def SIMPLE_TYPES_def startswith_def)

text \<open>
  C6, amended: \<open>is_ref\<close> is true exactly when no token of the raw expression (cut at
  spaces and parentheses) is one of the six primitive names, or the expression itself
  starts with \<^verbatim>\<open>#\<close>; for an expression without space and parenthesis this is exactly
  when the expression is not a primitive name. When \<open>is_ref\<close> is true, \<open>ref_type\<close>
  looks the raw expression up among the defined types of the registry and raises
  \<^verbatim>\<open>KeyError\<close> when there is none of that name.
\<close>

theorem is_ref_tokens:
  "(is_ref d \<longleftrightarrow> set (re_split (dt_raw_value d)) \<inter> set SIMPLE_TYPES = {}
                  \<or> startswith (dt_raw_value d) ''#'')
   \<and> (CHR '' '' \<notin> set (dt_raw_value d) \<and> CHR ''('' \<notin> set (dt_raw_value d) \<longrightarrow>
        (is_ref d \<longleftrightarrow> dt_raw_value d \<notin> set SIMPLE_TYPES))
   \<and> (is_ref d \<longrightarrow>
        ref_type S d =
          (case map_of (priv_defined_types_by_name S) (dt_raw_value d) of
             None \<Rightarrow> Inl KeyError | Some t \<Rightarrow> Inr (Some t)))"
proof (intro conjI impI)
  show "is_ref d \<longleftrightarrow> set (re_split (dt_raw_value d)) \<inter> set SIMPLE_TYPES = {}
                  \<or> startswith (dt_raw_value d) ''#''"
    by (rule is_ref_iff)
next
  assume "CHR '' '' \<notin> set (dt_raw_value d) \<and> CHR ''('' \<notin> set (dt_raw_value d)"
  then have "re_split (dt_raw_value d) = [dt_raw_value d]"
    by (simp add: re_split_atomic)
  then show "is_ref d \<longleftrightarrow> dt_raw_value d \<notin> set SIMPLE_TYPES"
    using simple_type_no_hash [of "dt_raw_value d"] by (auto simp add: is_ref_iff)
next
  assume "is_ref d"
  then show "ref_type S d =
          (case map_of (priv_defined_types_by_name S) (dt_raw_value d) of
             None \<Rightarrow> Inl KeyError | Some t \<Rightarrow> Inr (Some t))"
    by (simp add: ref_type_def get_defined_type_def split: option.splits)
qed

theorem is_ref_tokens_witness:
  "(CHR '' '' \<notin> set ''bad_raw_val'' \<and> CHR ''('' \<notin> set ''bad_raw_val'')
   \<and> is_ref \<lparr>dt_name = ''IfcCustom'', dt_raw_value = ''bad_raw_val''\<rparr>
   \<and> ref_type
        \<lparr>version = ''IFC2X3'',
         priv_defined_types_by_name =
           [(''IfcLengthMeasure'', \<lparr>dt_name = ''IfcLengthMeasure'', dt_raw_value = ''REAL''\<rparr>)],
         priv_entities_by_name = []\<rparr>
        \<lparr>dt_name = ''IfcCustom'', dt_raw_value = ''bad_raw_val''\<rparr> = Inl KeyError
   \<and> \<not> is_ref \<lparr>dt_name = ''IfcLengthMeasure'', dt_raw_value = ''REAL''\<rparr>"
  using is_ref_tokens
    [of "\<lparr>dt_name = ''IfcCustom'', dt_raw_value = ''bad_raw_val''\<rparr>"
        "\<lparr>version = ''IFC2X3'',
         priv_defined_types_by_name =
           [(''IfcLengthMeasure'', \<lparr>dt_name = ''IfcLengthMeasure'', dt_raw_value = ''REAL''\<rparr>)],
         priv_entities_by_name = []\<rparr>"]
    is_ref_tokens [of "\<lparr>dt_name = ''IfcLengthMeasure'', dt_raw_value = ''REAL''\<rparr>"]
  by (simp add: SIMPLE_TYPES_def startswith_def)

subsection \<open>The attribute region of an entity block\<close>

lemma partition_before_prefix:
  "fst (partition_py s sep) = take (length (fst (partition_py s sep))) s"
  by (induction s) (auto split: prod.splits)

lemma partition_before_step:
  "take (length sep) (c # cs) \<noteq> sep \<Longrightarrow>
     fst (partition_py (c # cs) sep) = c # fst (partition_py cs sep)"
  by (auto split: prod.splits)

lemma partition_before_le:
  "sep \<noteq> [] \<Longrightarrow> occurs_at sep s i \<Longrightarrow> length (fst (partition_py s sep)) \<le> i"
proof (induction s arbitrary: i)
  case Nil
  then show ?case by (simp add: occurs_at_def)
next
  case (Cons c cs)
  show ?case
  proof (cases "take (length sep) (c # cs) = sep")
    case True
    then show ?thesis by simp
  next
    case False
    with Cons.prems obtain j where j: "i = Suc j"
      by (cases i) (auto simp add: occurs_at_def)
    with Cons.prems have "occurs_at sep cs j" by (simp add: occurs_at_def)
    with Cons.IH Cons.prems have "length (fst (partition_py cs sep)) \<le> j" by blast
    with j partition_before_step [OF False] show ?thesis by (simp del: partition_py.simps)
  qed
qed

lemma partition_before_occurs:
  "sep \<noteq> [] \<Longrightarrow> occurs_at sep s i \<Longrightarrow>
     occurs_at sep s (length (fst (partition_py s sep)))"
proof (induction s arbitrary: i)
  case Nil
  then show ?case by (simp add: occurs_at_def)
next
  case (Cons c cs)
  show ?case
  proof (cases "take (length sep) (c # cs) = sep")
    case True
    then show ?thesis by (simp add: occurs_at_def)
  next
    case False
    with Cons.prems obtain j where j: "i = Suc j"
      by (cases i) (auto simp add: occurs_at_def)
    with Cons.prems have "occurs_at sep cs j" by (simp add: occurs_at_def)
    with Cons.IH Cons.prems have "occurs_at sep cs (length (fst (partition_py cs sep)))" by blast
    with partition_before_step [OF False] show ?thesis
      by (simp add: occurs_at_def del: partition_py.simps)
  qed
qed

lemma partition_before_absent:
  "\<forall>i. \<not> occurs_at sep s i \<Longrightarrow> fst (partition_py s sep) = s"
proof (induction s)
  case Nil
  then show ?case by simp
next
  case (Cons c cs)
  from Cons.prems have "\<not> occurs_at sep (c # cs) 0" by blast
  then have ne: "take (length sep) (c # cs) \<noteq> sep" by (simp add: occurs_at_def)
  have "\<forall>i. \<not> occurs_at sep cs i"
  proof
    fix i
    from Cons.prems have "\<not> occurs_at sep (c # cs) (Suc i)" by blast
    then show "\<not> occurs_at sep cs i" by (simp add: occurs_at_def)
  qed
  with Cons.IH have "fst (partition_py cs sep) = cs" by blast
  with partition_before_step [OF ne] show ?case by (simp del: partition_py.simps)
qed

lemma take_le_take: "n \<le> m \<Longrightarrow> take n (s::string) \<le> take m s"
proof (induction s arbitrary: n m)
  case Nil
  then show ?case by simp
next
  case (Cons c cs)
  then show ?case by (cases n; cases m) auto
qed

lemma fold_min_takes:
  "fold min (map (\<lambda>k. take k (s::string)) ks) (take k0 s) = take (fold min ks k0) s"
proof (induction ks arbitrary: k0)
  case Nil
  then show ?case by simp
next
  case (Cons k ks)
  have "min (take k s) (take k0 s) = take (min k k0) s"
    using take_le_take [of k k0 s] take_le_take [of k0 k s]
    by (cases "k \<le> k0") (auto simp add: min_def)
  with Cons show ?case by simp
qed

lemma fold_min_Min: "fold min ks (k0::nat) = Min (set (k0 # ks))"
  by (simp only: Min.set_eq_fold)

lemma before_take:
  "fst (partition_py s ([NL, CHR '' ''] @ noa)) = take (before_len s noa) s"
  unfolding before_len_def by (rule partition_before_prefix)

lemma py_min_befores:
  assumes "kws \<noteq> []"
  shows "py_min (map (\<lambda>noa. fst (partition_py s ([NL, CHR '' ''] @ noa))) kws)
           = Inr (take (Min (before_len s ` set kws)) s)"
proof -
  from assms obtain k ks where kws: "kws = k # ks" by (cases kws) auto
  have "fold min (map (\<lambda>noa. take (before_len s noa) s) ks) (take (before_len s k) s)
          = take (fold min (map (before_len s) ks) (before_len s k)) s"
    using fold_min_takes [of s "map (before_len s) ks" "before_len s k"]
    by (simp add: comp_def)
  also have "fold min (map (before_len s) ks) (before_len s k)
          = Min (set (before_len s k # map (before_len s) ks))"
    by (rule fold_min_Min)
  finally have "fold min (map (\<lambda>noa. take (before_len s noa) s) ks) (take (before_len s k) s)
          = take (Min (before_len s ` set kws)) s"
    by (simp add: kws)
  then show ?thesis
    by (simp only: py_min_def kws before_take list.case list.map)
qed

lemma attrs_str_Min:
  "attrs_str inner = Inr (take (Min (before_len inner ` set NO_ATTR)) inner)"
  unfolding attrs_str_def by (rule py_min_befores) (simp add: NO_ATTR_def)

lemma before_len_cases:
  "(before_len s noa = length s \<and> (\<forall>i. \<not> occurs_at (keyword_sep noa) s i))
   \<or> occurs_at (keyword_sep noa) s (before_len s noa)"
proof (cases "\<exists>i. occurs_at (keyword_sep noa) s i")
  case True
  then obtain i where "occurs_at ([NL, CHR '' ''] @ noa) s i"
    by (auto simp add: keyword_sep_def)
  moreover have "[NL, CHR '' ''] @ noa \<noteq> []" by simp
  ultimately have "occurs_at ([NL, CHR '' ''] @ noa) s
      (length (fst (partition_py s ([NL, CHR '' ''] @ noa))))"
    using partition_before_occurs by blast
  then show ?thesis by (simp add: before_len_def keyword_sep_def)
next
  case False
  then have none: "\<forall>i. \<not> occurs_at ([NL, CHR '' ''] @ noa) s i"
    by (simp add: keyword_sep_def)
  then have "fst (partition_py s ([NL, CHR '' ''] @ noa)) = s"
    by (rule partition_before_absent)
  then have "before_len s noa = length s" by (simp only: before_len_def)
  with False show ?thesis by blast
qed

lemma occurs_at_less_length: "sep \<noteq> [] \<Longrightarrow> occurs_at sep s i \<Longrightarrow> i < length s"
  unfolding occurs_at_def by (cases "i < length s") auto

lemma attrs_str_earliest:
  assumes kw: "kw \<in> set NO_ATTR" and occ: "occurs_at (keyword_sep kw) inner m"
    and least: "\<forall>j<m. \<forall>kw'\<in>set NO_ATTR. \<not> occurs_at (keyword_sep kw') inner j"
  shows "attrs_str inner = Inr (take m inner)"
proof -
  have m_len: "m < length inner"
    using occ by (auto intro: occurs_at_less_length simp add: keyword_sep_def)
  have le: "before_len inner kw \<le> m"
    using occ partition_before_le [of "[NL, CHR '' ''] @ kw" inner m]
    by (simp add: before_len_def keyword_sep_def)
  have ge: "m \<le> before_len inner kw'" if kw': "kw' \<in> set NO_ATTR" for kw'
  proof (rule ccontr)
    assume "\<not> m \<le> before_len inner kw'"
    then have lt: "before_len inner kw' < m" by simp
    with m_len have "before_len inner kw' \<noteq> length inner" by simp
    with before_len_cases [of inner kw']
    have "occurs_at (keyword_sep kw') inner (before_len inner kw')" by blast
    with least lt kw' show False by blast
  qed
  have "Min (before_len inner ` set NO_ATTR) = m"
  proof (rule Min_eqI)
    show "finite (before_len inner ` set NO_ATTR)" by simp
    show "m \<le> y" if "y \<in> before_len inner ` set NO_ATTR" for y
      using that ge by auto
    from le ge [OF kw] have "before_len inner kw = m" by simp
    with kw show "m \<in> before_len inner ` set NO_ATTR" by blast
  qed
  then show ?thesis by (simp add: attrs_str_Min)
qed

lemma attrs_str_none:
  assumes "\<forall>j. \<forall>kw\<in>set NO_ATTR. \<not> occurs_at (keyword_sep kw) inner j"
  shows "attrs_str inner = Inr inner"
proof -
  have "before_len inner kw = length inner" if "kw \<in> set NO_ATTR" for kw
    using before_len_cases [of inner kw] assms that by blast
  then have "before_len inner ` set NO_ATTR = {length inner}"
    by (auto simp add: NO_ATTR_def)
  then show ?thesis by (simp add: attrs_str_Min)
qed

text \<open>
  C5: for every entity block with a header (a semicolon), the attribute region is the
  prefix of the text after the header that ends at the least offset at which the
  separator of any keyword of \<open>NO_ATTR\<close> occurs, whatever the position of that keyword
  in \<open>NO_ATTR\<close>; when no keyword occurs the region is the whole text after the header.
\<close>

theorem attribute_region_earliest_keyword:
  "CHR '';'' \<in> set raw_data \<Longrightarrow>
     \<exists>inner. inner_raw_data raw_data = Inr inner
       \<and> (\<forall>m. (\<exists>kw\<in>set NO_ATTR. occurs_at (keyword_sep kw) inner m)
               \<and> (\<forall>j<m. \<forall>kw\<in>set NO_ATTR. \<not> occurs_at (keyword_sep kw) inner j)
             \<longrightarrow> extract_attrs_str raw_data = Inr (take m inner))
       \<and> ((\<forall>j. \<forall>kw\<in>set NO_ATTR. \<not> occurs_at (keyword_sep kw) inner j)
             \<longrightarrow> extract_attrs_str raw_data = Inr inner)"
proof -
  assume "CHR '';'' \<in> set raw_data"
  then obtain inner where inner: "inner_raw_data raw_data = Inr inner"
    by (simp add: inner_raw_data_def Let_def)
  then have ex: "extract_attrs_str raw_data = attrs_str inner"
    by (simp add: extract_attrs_str_def)
  have "\<forall>m. (\<exists>kw\<in>set NO_ATTR. occurs_at (keyword_sep kw) inner m)
               \<and> (\<forall>j<m. \<forall>kw\<in>set NO_ATTR. \<not> occurs_at (keyword_sep kw) inner j)
             \<longrightarrow> extract_attrs_str raw_data = Inr (take m inner)"
    using attrs_str_earliest [of _ inner] unfolding ex by blast
  moreover have "(\<forall>j. \<forall>kw\<in>set NO_ATTR. \<not> occurs_at (keyword_sep kw) inner j)
             \<longrightarrow> extract_attrs_str raw_data = Inr inner"
    using attrs_str_none [of inner] unfolding ex by blast
  ultimately show ?thesis using inner by blast
qed

theorem attribute_region_earliest_keyword_witness:
  "CHR '';'' \<in> set example_block
   \<and> inner_raw_data example_block = Inr example_inner
   \<and> occurs_at (keyword_sep ''UNIQUE'') example_inner 8
   \<and> occurs_at (keyword_sep ''WHERE'') example_inner 20
   \<and> extract_attrs_str example_block = Inr ([NL, TAB] @ ''A : B;'')"
proof -
  have semi: "CHR '';'' \<in> set example_block"
    by (simp add: example_block_def)
  have inner: "inner_raw_data example_block = Inr example_inner"
    by (simp add: inner_raw_data_def example_block_def example_inner_def NL_def TAB_def)
  have occ: "occurs_at (keyword_sep ''UNIQUE'') example_inner 8"
    by (simp add: occurs_at_def keyword_sep_def example_inner_def NL_def TAB_def)
  have occ': "occurs_at (keyword_sep ''WHERE'') example_inner 20"
    by (simp add: occurs_at_def keyword_sep_def example_inner_def NL_def TAB_def)
  have least: "\<forall>j<8. \<forall>kw\<in>set NO_ATTR. \<not> occurs_at (keyword_sep kw) example_inner j"
    by (simp add: occurs_at_def keyword_sep_def example_inner_def NL_def TAB_def NO_ATTR_def
        numeral_eq_Suc less_Suc_eq)
  from attribute_region_earliest_keyword [OF semi] inner
  have "(\<exists>kw\<in>set NO_ATTR. occurs_at (keyword_sep kw) example_inner 8)
               \<and> (\<forall>j<8. \<forall>kw\<in>set NO_ATTR. \<not> occurs_at (keyword_sep kw) example_inner j)
             \<longrightarrow> extract_attrs_str example_block = Inr (take 8 example_inner)"
    by auto
  moreover have "''UNIQUE'' \<in> set NO_ATTR" by (simp add: NO_ATTR_def)
  ultimately have "extract_attrs_str example_block = Inr (take 8 example_inner)"
    using occ least by blast
  then have "extract_attrs_str example_block = Inr ([NL, TAB] @ ''A : B;'')"
    by (simp add: example_inner_def)
  with semi inner occ occ' show ?thesis by blast
qed

subsection \<open>Inherited attributes\<close>

lemma get_attribute_key:
  "n \<in> fst ` set (priv_attributes_by_name e) \<Longrightarrow>
     \<exists>rt. get_attribute e n = Inr \<lparr>attr_name = n, attr_raw_type = rt, attr_entity_name = ent_name e\<rparr>"
  by (auto simp add: get_attribute_def map_of_eq_None_iff split: option.splits)

lemma subscript_all_keys:
  "set names \<subseteq> fst ` set (priv_attributes_by_name e) \<Longrightarrow>
     map attr_name (subscript_all e names) = names
     \<and> (\<forall>a\<in>set (subscript_all e names). attr_entity_name a = ent_name e)"
proof (induction names)
  case Nil
  then show ?case by (simp add: subscript_all_def)
next
  case (Cons n names)
  then obtain rt where "get_attribute e n =
      Inr \<lparr>attr_name = n, attr_raw_type = rt, attr_entity_name = ent_name e\<rparr>"
    using get_attribute_key [of n e] by auto
  with Cons show ?case by (simp add: subscript_all_def)
qed

lemma set_attribute_names: "set (attribute_names e) = fst ` set (priv_attributes_by_name e)"
  by (simp add: attribute_names_def sorted_keys_def)

lemma distinct_attribute_names: "distinct (attribute_names e)"
  by (simp add: attribute_names_def sorted_keys_def)

lemma sorted_attribute_names: "sorted (attribute_names e)"
  by (simp add: attribute_names_def sorted_keys_def)

lemma attributes_names: "map attr_name (attributes e) = attribute_names e"
  unfolding attributes_def using subscript_all_keys [of "attribute_names e" e]
  by (simp add: set_attribute_names)

lemma attributes_entity: "a \<in> set (attributes e) \<Longrightarrow> attr_entity_name a = ent_name e"
  unfolding attributes_def using subscript_all_keys [of "attribute_names e" e]
  by (simp add: set_attribute_names)

lemma not_optional_names_subset:
  "set (not_optional_attribute_names e) \<subseteq> fst ` set (priv_attributes_by_name e)"
proof -
  have "set (not_optional_attribute_names e) \<subseteq> set (map attr_name (attributes e))"
    by (auto simp add: not_optional_attribute_names_def)
  then show ?thesis by (simp only: attributes_names set_attribute_names)
qed

lemma not_optional_attributes_names:
  "map attr_name (not_optional_attributes e) = not_optional_attribute_names e"
  unfolding not_optional_attributes_def
  using subscript_all_keys [OF not_optional_names_subset] by blast

lemma not_optional_attributes_entity:
  "a \<in> set (not_optional_attributes e) \<Longrightarrow> attr_entity_name a = ent_name e"
  unfolding not_optional_attributes_def
  using subscript_all_keys [OF not_optional_names_subset] by blast

lemma own_attributes_entity:
  "a \<in> set (own_attributes io e) \<Longrightarrow> attr_entity_name a = ent_name e"
  by (cases io) (auto simp add: own_attributes_def attributes_entity not_optional_attributes_entity)

lemma own_attributes_fold:
  "(if io then attributes e else not_optional_attributes e) = own_attributes io e"
  by (simp add: own_attributes_def)

lemma chain_walk:
  "supertype_chain S (e # es) \<Longrightarrow> length (e # es) \<le> depth \<Longrightarrow>
     get_all_attributes depth S e io = Inr (concat (map (own_attributes io) (rev (e # es))))"
proof (induction es arbitrary: e depth)
  case Nil
  then obtain d where "depth = Suc d" by (cases depth) auto
  with Nil show ?case by (simp add: supertype_def own_attributes_fold)
next
  case (Cons s es)
  then obtain d where d: "depth = Suc d" by (cases depth) auto
  from Cons.prems have sup: "supertype S e = Inr (Some s)" and ch: "supertype_chain S (s # es)"
    by simp_all
  from Cons.prems d have "length (s # es) \<le> d" by simp
  with Cons.IH ch have "get_all_attributes d S s io
      = Inr (concat (map (own_attributes io) (rev (s # es))))" by blast
  with sup d show ?case by (simp add: own_attributes_fold)
qed

lemma chain_unique:
  "supertype_chain S (e # xs) \<Longrightarrow> supertype_chain S (e # ys) \<Longrightarrow> xs = ys"
proof (induction xs arbitrary: e ys)
  case Nil
  then show ?case by (cases ys) (auto simp add: supertype_def)
next
  case (Cons s xs)
  then show ?case by (cases ys) (auto simp add: supertype_def)
qed

lemma chain_suffix:
  "supertype_chain S (xs @ e # ys) \<Longrightarrow> supertype_chain S (e # ys)"
proof (induction xs)
  case Nil
  then show ?case by simp
next
  case (Cons x xs)
  then show ?case by (cases xs) auto
qed

lemma supertype_registered:
  assumes "keyed_by_name S" and "supertype S e = Inr (Some s)"
  shows "registered S s"
proof -
  from assms(2) obtain n where n: "get_entity S n = Inr s"
    by (auto simp add: supertype_def split: option.splits sum.splits)
  then have "map_of (priv_entities_by_name S) n = Some s"
    by (auto simp add: get_entity_def split: option.splits)
  then have "(n, s) \<in> set (priv_entities_by_name S)" by (rule map_of_SomeD)
  with assms(1) have "ent_name s = n"
    by (auto simp add: keyed_by_name_def list_all_iff)
  with n show ?thesis by (simp add: registered_def)
qed

lemma chain_registered:
  "keyed_by_name S \<Longrightarrow> registered S e \<Longrightarrow> supertype_chain S (e # es) \<Longrightarrow>
     \<forall>x\<in>set (e # es). registered S x"
proof (induction es arbitrary: e)
  case Nil
  then show ?case by simp
next
  case (Cons s es)
  then have "registered S s" by (auto intro: supertype_registered)
  with Cons show ?case by auto
qed

lemma registered_same_name:
  "registered S x \<Longrightarrow> registered S y \<Longrightarrow> ent_name x = ent_name y \<Longrightarrow> x = y"
  by (simp add: registered_def)

lemma chain_not_again:
  assumes "supertype_chain S (e # es)"
  shows "e \<notin> set es"
proof
  assume "e \<in> set es"
  then obtain xs ys where es: "es = xs @ e # ys" by (auto simp add: in_set_conv_decomp)
  with assms have "supertype_chain S ((e # xs) @ e # ys)" by simp
  then have "supertype_chain S (e # ys)" by (rule chain_suffix)
  with assms have "es = ys" by (rule chain_unique)
  with es show False by simp
qed

lemma chain_distinct_names:
  "keyed_by_name S \<Longrightarrow> registered S e \<Longrightarrow> supertype_chain S (e # es) \<Longrightarrow>
     distinct (map ent_name (e # es))"
proof (induction es arbitrary: e)
  case Nil
  then show ?case by simp
next
  case (Cons s es)
  from Cons.prems have reg: "\<forall>x\<in>set (e # s # es). registered S x"
    by (rule chain_registered)
  have "ent_name e \<notin> ent_name ` set (s # es)"
  proof
    assume "ent_name e \<in> ent_name ` set (s # es)"
    then obtain x where x: "x \<in> set (s # es)" and nm: "ent_name e = ent_name x"
      by (rule imageE)
    from reg x have "registered S x" "registered S e" by auto
    with nm have "x = e" using registered_same_name by metis
    with x chain_not_again [OF Cons.prems(3)] show False by simp
  qed
  moreover from Cons.prems reg have "distinct (map ent_name (s # es))"
    by (intro Cons.IH) auto
  ultimately show ?case by simp
qed

lemma pairs_distinct:
  "distinct (map ent_name es) \<Longrightarrow>
     distinct (concat (map (\<lambda>e. map (Pair (ent_name e)) (attribute_names e)) es))"
proof (induction es)
  case Nil
  then show ?case by simp
next
  case (Cons e es)
  have "distinct (map (Pair (ent_name e)) (attribute_names e))"
    by (simp add: distinct_map distinct_attribute_names inj_on_def)
  moreover from Cons have "distinct (concat (map (\<lambda>e. map (Pair (ent_name e)) (attribute_names e)) es))"
    by simp
  moreover from Cons.prems have
    "set (map (Pair (ent_name e)) (attribute_names e))
       \<inter> set (concat (map (\<lambda>e. map (Pair (ent_name e)) (attribute_names e)) es)) = {}"
    by auto
  ultimately show ?case by simp
qed

lemma pairs_set:
  "set (concat (map (\<lambda>e. map (Pair (ent_name e)) (attribute_names e)) es))
     = {(ent_name e, a) | e a. e \<in> set es \<and> a \<in> set (attribute_names e)}"
  by auto

lemma pairs_length:
  "length (concat (map (\<lambda>e. map (Pair (ent_name e)) (attribute_names e)) es))
     = length (concat (map attributes es))"
proof -
  have "length (attributes e) = length (attribute_names e)" for e
    using attributes_names [of e] by (metis length_map)
  then show ?thesis by (induction es) simp_all
qed

lemma build_name_plain: "build_name False c = (\<lambda>n. n)"
  by (simp add: fun_eq_iff build_name_def)

lemma names_of_attributes:
  "map (\<lambda>a. build_name ic (attr_entity_name a) (attr_name a)) (own_attributes io e)
     = map (build_name ic (ent_name e)) (map attr_name (own_attributes io e))"
  by (simp add: own_attributes_entity)

text \<open>
  C4: let \<open>E # es\<close> be the supertype chain of an entity \<open>E\<close> of the registry, leaf
  first, and let the recursion depth suffice for it. Then \<open>get_all_attributes\<close> returns
  the attributes of the entities of the chain, root first and leaf last;
  \<open>get_all_attribute_names\<close> returns their names in that order, prefixed with the name
  of the declaring entity and a dot only when asked to; and the number of names it
  returns by default is the number of distinct pairs of a declaring entity and an
  attribute name along the chain.
\<close>

theorem all_attributes_root_first:
  assumes chain: "supertype_chain S (E # es)"
    and depth: "length (E # es) \<le> depth"
    and keyed: "keyed_by_name S"
    and reg: "get_entity S (ent_name E) = Inr E"
  shows "get_all_attributes depth S E include_optional
           = Inr (concat (map (own_attributes include_optional) (rev (E # es))))
     \<and> get_all_attribute_names depth S E include_optional include_classname
           = Inr (concat (map (\<lambda>e. map (build_name include_classname (ent_name e))
                                     (map attr_name (own_attributes include_optional e)))
                            (rev (E # es))))
     \<and> get_all_attribute_names depth S E True False
           = Inr (concat (map attribute_names (rev (E # es))))
     \<and> length (concat (map attribute_names (rev (E # es))))
           = card {(ent_name e, a) | e a. e \<in> set (E # es) \<and> a \<in> set (attribute_names e)}"
proof -
  have walk: "get_all_attributes depth S E io
           = Inr (concat (map (own_attributes io) (rev (E # es))))" for io
    using chain depth by (rule chain_walk)
  have names: "get_all_attribute_names depth S E io ic
           = Inr (concat (map (\<lambda>e. map (build_name ic (ent_name e))
                                     (map attr_name (own_attributes io e)))
                            (rev (E # es))))" for io ic
    unfolding get_all_attribute_names_def walk
    by (simp add: map_concat comp_def names_of_attributes del: rev.simps)
  have plain: "get_all_attribute_names depth S E True False
           = Inr (concat (map attribute_names (rev (E # es))))"
    unfolding names
    by (simp add: build_name_plain own_attributes_def attributes_names del: rev.simps)
  from keyed reg chain have "distinct (map ent_name (E # es))"
    by (intro chain_distinct_names) (simp_all add: registered_def)
  then have "distinct (concat (map (\<lambda>e. map (Pair (ent_name e)) (attribute_names e)) (E # es)))"
    by (rule pairs_distinct)
  then have "card (set (concat (map (\<lambda>e. map (Pair (ent_name e)) (attribute_names e)) (E # es))))
      = length (concat (map (\<lambda>e. map (Pair (ent_name e)) (attribute_names e)) (E # es)))"
    by (rule distinct_card)
  also have "\<dots> = length (concat (map attribute_names (E # es)))"
    by (simp add: length_concat comp_def)
  also have "\<dots> = length (concat (map attribute_names (rev (E # es))))"
    by (simp add: length_concat rev_map [symmetric] del: rev.simps)
  finally have "length (concat (map attribute_names (rev (E # es))))
      = card {(ent_name e, a) | e a. e \<in> set (E # es) \<and> a \<in> set (attribute_names e)}"
    by (simp only: pairs_set)
  with walk names plain show ?thesis by blast
qed

lemma example_attribute_names:
  "attribute_names example_root = [''GlobalId'', ''Name'']"
  "attribute_names example_object = [''ObjectType'']"
  "attribute_names example_product = [''Name'', ''Representation'']"
  by (simp_all add: attribute_names_def sorted_keys_def example_root_def example_object_def
      example_product_def)

theorem all_attributes_root_first_witness:
  "supertype_chain example_schema [example_product, example_object, example_root]
   \<and> length [example_product, example_object, example_root] \<le> 3
   \<and> keyed_by_name example_schema
   \<and> get_entity example_schema (ent_name example_product) = Inr example_product
   \<and> get_all_attribute_names 3 example_schema example_product True False
        = Inr [''GlobalId'', ''Name'', ''ObjectType'', ''Name'', ''Representation'']
   \<and> card {(ent_name e, a) | e a.
            e \<in> set [example_product, example_object, example_root] \<and> a \<in> set (attribute_names e)}
        = 5"
proof -
  have chain: "supertype_chain example_schema [example_product, example_object, example_root]"
    by (simp add: supertype_def get_entity_def example_schema_def example_root_def
        example_object_def example_product_def)
  have depth: "length [example_product, example_object, example_root] \<le> 3"
    by simp
  have keyed: "keyed_by_name example_schema"
    by (simp add: keyed_by_name_def example_schema_def example_root_def
        example_object_def example_product_def)
  have reg: "get_entity example_schema (ent_name example_product) = Inr example_product"
    by (simp add: get_entity_def example_schema_def example_product_def)
  note all = all_attributes_root_first [OF chain depth keyed reg, of True True]
  from all have "get_all_attribute_names 3 example_schema example_product True False
        = Inr (concat (map attribute_names (rev [example_product, example_object, example_root])))"
    by blast
  then have names: "get_all_attribute_names 3 example_schema example_product True False
        = Inr [''GlobalId'', ''Name'', ''ObjectType'', ''Name'', ''Representation'']"
    by (simp add: example_attribute_names)
  from all have "length (concat (map attribute_names (rev [example_product, example_object, example_root])))
        = card {(ent_name e, a) | e a.
            e \<in> set [example_product, example_object, example_root] \<and> a \<in> set (attribute_names e)}"
    by blast
  then have "card {(ent_name e, a) | e a.
            e \<in> set [example_product, example_object, example_root] \<and> a \<in> set (attribute_names e)}
        = 5"
    by (simp add: example_attribute_names)
  with chain depth keyed reg names show ?thesis by blast
qed

section \<open>Properties of the validation base\<close>

subsection \<open>Codenames\<close>

lemma str_replace_char: "str_replace [c] [] s = filter (\<lambda>x. x \<noteq> c) s"
  by (induction s) auto

lemma fold_clean:
  "fold (\<lambda>cur_char str_in.
            if cur_char \<in> set str_in then str_replace [cur_char] [] str_in else str_in) cs s
     = filter (\<lambda>x. x \<notin> set cs) s"
proof (induction cs arbitrary: s)
  case Nil
  then show ?case by simp
next
  case (Cons c cs)
  have "c \<notin> set s \<Longrightarrow> filter (\<lambda>x. x \<noteq> c) s = s"
    by (induction s) auto
  then have "(if c \<in> set s then str_replace [c] [] s else s) = filter (\<lambda>x. x \<noteq> c) s"
    by (simp add: str_replace_char)
  then show ?case by (simp add: Cons conj_commute)
qed

lemma clean_str_string: "clean_str (PyStr s) = Inr (PyStr (filter (\<lambda>x. x \<notin> set punctuation) s))"
  by (simp add: clean_str_def fold_clean)

lemma lower_char_cases:
  "lower_char c = c \<or> (c \<in> set ascii_uppercase \<and> lower_char c \<in> set ascii_lowercase)"
proof (cases "map_of (zip ascii_uppercase ascii_lowercase) c")
  case None
  then show ?thesis by (simp add: lower_char_def)
next
  case (Some l)
  then have "(c, l) \<in> set (zip ascii_uppercase ascii_lowercase)" by (rule map_of_SomeD)
  then have "c \<in> set ascii_uppercase" "l \<in> set ascii_lowercase"
    by (auto dest: set_zip_leftD set_zip_rightD)
  with Some show ?thesis by (simp add: lower_char_def)
qed

lemma letters_kept:
  "c \<in> set ascii_uppercase \<union> set ascii_lowercase \<Longrightarrow> c \<notin> set punctuation \<and> c \<noteq> CHR '' ''"
  by (auto simp add: ascii_uppercase_def ascii_lowercase_def punctuation_def)

lemma lower_char_kept:
  "(lower_char c \<notin> set punctuation \<and> lower_char c \<noteq> CHR '' '')
     \<longleftrightarrow> (c \<notin> set punctuation \<and> c \<noteq> CHR '' '')"
  using lower_char_cases [of c] letters_kept [of c] letters_kept [of "lower_char c"] by auto

lemma lower_char_punct: "lower_char c \<in> set punctuation \<longleftrightarrow> c \<in> set punctuation"
  using lower_char_cases [of c] letters_kept [of c] letters_kept [of "lower_char c"] by auto

lemma codename_of_string:
  "codename_of (PyStr s)
     = Inr (filter (\<lambda>c. c \<notin> set punctuation \<and> c \<noteq> CHR '' '') (str_lower s))"
proof -
  have "str_lower (filter (\<lambda>x. x \<notin> set punctuation) s)
          = filter (\<lambda>x. x \<notin> set punctuation) (str_lower s)"
    by (simp add: str_lower_def filter_map comp_def lower_char_punct)
  then show ?thesis
    by (simp add: codename_of_def clean_str_string str_replace_char conj_commute)
qed

text \<open>
  C10: when the display name of a wrapped record is \<^verbatim>\<open>None\<close>, \<open>clean_str\<close> returns
  \<^verbatim>\<open>None\<close> and the \<open>codename\<close> accessor raises (\<^verbatim>\<open>AttributeError\<close>, from \<^verbatim>\<open>.lower()\<close>);
  when the display name is a string, the accessor returns the name in lower case
  without the characters of \<^verbatim>\<open>string.punctuation\<close> and without spaces.
\<close>

theorem codename_total_on_strings:
  "(name e = PyNone \<longrightarrow> clean_str (name e) = Inr PyNone \<and> codename e = Inl AttributeError)
   \<and> (name e = PyStr s \<longrightarrow>
        codename e = Inr (filter (\<lambda>c. c \<notin> set punctuation \<and> c \<noteq> CHR '' '') (str_lower s)))"
  by (simp add: codename_def codename_of_string) (simp add: codename_of_def clean_str_def)

theorem codename_total_on_strings_witness:
  "name example_unnamed_entity = PyNone
   \<and> codename example_unnamed_entity = Inl AttributeError
   \<and> name example_door_entity = PyStr ''M_Single-Flush: 0915 x 2134mm''
   \<and> codename example_door_entity = Inr ''msingleflush0915x2134mm''"
proof -
  have n1: "name example_unnamed_entity = PyNone"
    by (simp add: name_def dict_get_def example_unnamed_entity_def)
  have n2: "name example_door_entity = PyStr ''M_Single-Flush: 0915 x 2134mm''"
    by (simp add: name_def dict_get_def example_door_entity_def example_door_def plain_record_def)
  from codename_total_on_strings [of example_unnamed_entity] n1
  have c1: "codename example_unnamed_entity = Inl AttributeError" by blast
  from codename_total_on_strings [of example_door_entity "''M_Single-Flush: 0915 x 2134mm''"] n2
  have "codename example_door_entity
      = Inr (filter (\<lambda>c. c \<notin> set punctuation \<and> c \<noteq> CHR '' '')
               (str_lower ''M_Single-Flush: 0915 x 2134mm''))" by blast
  then have c2: "codename example_door_entity = Inr ''msingleflush0915x2134mm''"
    by (simp add: str_lower_def lower_char_def ascii_uppercase_def ascii_lowercase_def
        punctuation_def)
  from n1 c1 n2 c2 show ?thesis by blast
qed

subsection \<open>Construction\<close>

lemma check_expected_types_all:
  "check_expected_types raw types = (if \<forall>t\<in>set types. is_a raw t then Inr () else Inl ValueError)"
  by (induction types) auto

text \<open>
  What the constructor does: it raises \<^verbatim>\<open>ValueError\<close> without a raw record and without
  a tuple, and otherwise succeeds exactly when the record is of every expected type.
\<close>

lemma IfcBaseEntity_init_cases:
  "IfcBaseEntity_init None S expected = Inl ValueError"
  "IfcBaseEntity_init (Some raw) S NotATuple = Inl ValueError"
  "IfcBaseEntity_init (Some raw) S (Tuple types) =
     (if \<forall>t\<in>set types. is_a raw t
      then Inr \<lparr>priv_raw = raw, priv_schema = S, info = get_info raw\<rparr>
      else Inl ValueError)"
  by (simp_all add: IfcBaseEntity_init_def check_expected_types_all)

text \<open>
  C2, evaluated at a door and the expected types \<^verbatim>\<open>('IfcObject', 'IfcTypeObject')\<close>:
  the record is an \<^verbatim>\<open>IfcObject\<close>, so it satisfies the membership test for one name
  of the tuple, and the constructor still raises \<^verbatim>\<open>ValueError\<close>, because the loop
  raises at the first expected type the record is not.
\<close>

theorem init_rejects_one_of_two:
  "is_a example_door ''IfcObject''
   \<and> IfcBaseEntity_init (Some example_door) None (Tuple [''IfcObject'', ''IfcTypeObject''])
       = Inl ValueError"
  by (simp add: IfcBaseEntity_init_cases is_a_def example_door_def plain_record_def)

section \<open>Properties of the entities\<close>

subsection \<open>Parent resolution\<close>

lemma wrap_sel:
  "priv_raw (wrap raw) = raw" "priv_schema (wrap raw) = None" "info (wrap raw) = get_info raw"
  by (simp_all add: wrap_def)

lemma init_wrap:
  "is_a raw ''IfcObject'' \<Longrightarrow> IfcObjectEntity_init (Some raw) None default_expected_types = Inr (wrap raw)"
  by (simp add: IfcObjectEntity_init_def IfcBaseEntity_init_def default_expected_types_def wrap_def)

text \<open>
  C1, as the claim is worded, at an opening (a subtraction feature) that voids nothing
  and is contained in a storey: the voids rule does not apply, the record is passed on
  to the containment rule, and the parent is the storey, not \<^verbatim>\<open>None\<close>.
\<close>

theorem opening_falls_through_to_containment:
  "is_a (priv_raw (wrap example_loose_opening)) ''IfcFeatureElementSubtraction''
   \<and> length (VoidsElements (priv_raw (wrap example_loose_opening))) = 0
   \<and> get_relating_object (wrap example_loose_opening) = Some example_storey
   \<and> load_parent (wrap example_loose_opening) = Inr (Some (wrap example_storey))"
proof -
  have storey: "is_a example_storey ''IfcObject''"
    by (simp add: is_a_def example_storey_def plain_record_def)
  have rel: "get_relating_object (wrap example_loose_opening) = Some example_storey"
    by (simp add: get_relating_object_def wrap_sel example_loose_opening_def is_a_def
        opening_types_def contained_in_storey_def)
  have "is_a (priv_raw (wrap example_loose_opening)) ''IfcFeatureElementSubtraction''"
    by (simp add: wrap_sel example_loose_opening_def is_a_def opening_types_def)
  moreover have "length (VoidsElements (priv_raw (wrap example_loose_opening))) = 0"
    by (simp add: wrap_sel example_loose_opening_def)
  moreover have "load_parent (wrap example_loose_opening) = Inr (Some (wrap example_storey))"
    by (simp add: load_parent_def rel wrap_sel init_wrap [OF storey])
  ultimately show ?thesis using rel by blast
qed

text \<open>
  C1, amended: a rule of the chain applies when the record is of the kind of the rule
  and the relation collection of the rule has exactly one entry. The rules are tried in
  the order voids, containment, decomposition, and the first one that applies gives
  the relating record; a record to which an earlier rule does not apply, be it for its
  kind or for the size of the collection, is passed on to the next rule. When no rule
  applies, the parent is \<^verbatim>\<open>None\<close>, and no error is raised.
\<close>

theorem parent_priority_chain:
  "(is_a (priv_raw e) ''IfcFeatureElementSubtraction'' \<and> VoidsElements (priv_raw e) = [v]
      \<longrightarrow> get_relating_object e = RelatingBuildingElement v)
   \<and> (\<not> (is_a (priv_raw e) ''IfcFeatureElementSubtraction'' \<and> length (VoidsElements (priv_raw e)) = 1)
        \<and> is_a (priv_raw e) ''IfcElement'' \<and> ContainedInStructure (priv_raw e) = [c]
      \<longrightarrow> get_relating_object e = RelatingStructure c)
   \<and> (\<not> (is_a (priv_raw e) ''IfcFeatureElementSubtraction'' \<and> length (VoidsElements (priv_raw e)) = 1)
        \<and> \<not> (is_a (priv_raw e) ''IfcElement'' \<and> length (ContainedInStructure (priv_raw e)) = 1)
        \<and> is_a (priv_raw e) ''IfcObjectDefinition'' \<and> Decomposes (priv_raw e) = [d]
      \<longrightarrow> get_relating_object e = RelatingObject d)
   \<and> (\<not> (is_a (priv_raw e) ''IfcFeatureElementSubtraction'' \<and> length (VoidsElements (priv_raw e)) = 1)
        \<and> \<not> (is_a (priv_raw e) ''IfcElement'' \<and> length (ContainedInStructure (priv_raw e)) = 1)
        \<and> \<not> (is_a (priv_raw e) ''IfcObjectDefinition'' \<and> length (Decomposes (priv_raw e)) = 1)
      \<longrightarrow> get_relating_object e = None \<and> load_parent e = Inr None)"
  by (simp add: get_relating_object_def load_parent_def Let_def)

theorem parent_priority_chain_witness:
  "(is_a (priv_raw (wrap example_wall_opening)) ''IfcFeatureElementSubtraction''
      \<and> VoidsElements (priv_raw (wrap example_wall_opening)) = [voids_wall]
      \<and> get_relating_object (wrap example_wall_opening) = Some example_wall)
   \<and> (\<not> (is_a (priv_raw (wrap example_loose_opening)) ''IfcFeatureElementSubtraction''
             \<and> length (VoidsElements (priv_raw (wrap example_loose_opening))) = 1)
      \<and> is_a (priv_raw (wrap example_loose_opening)) ''IfcElement''
      \<and> ContainedInStructure (priv_raw (wrap example_loose_opening)) = [contained_in_storey]
      \<and> get_relating_object (wrap example_loose_opening) = Some example_storey)
   \<and> (\<not> is_a (priv_raw (wrap example_space)) ''IfcFeatureElementSubtraction''
      \<and> \<not> is_a (priv_raw (wrap example_space)) ''IfcElement''
      \<and> is_a (priv_raw (wrap example_space)) ''IfcObjectDefinition''
      \<and> get_relating_object (wrap example_space) = Some example_storey)
   \<and> (\<not> is_a (priv_raw (wrap example_project)) ''IfcFeatureElementSubtraction''
      \<and> \<not> is_a (priv_raw (wrap example_project)) ''IfcElement''
      \<and> length (Decomposes (priv_raw (wrap example_project))) \<noteq> 1
      \<and> get_relating_object (wrap example_project) = None
      \<and> load_parent (wrap example_project) = Inr None)"
proof -
  have a: "is_a (priv_raw (wrap example_wall_opening)) ''IfcFeatureElementSubtraction''
      \<and> VoidsElements (priv_raw (wrap example_wall_opening)) = [voids_wall]"
    by (simp add: wrap_sel example_wall_opening_def is_a_def opening_types_def)
  with parent_priority_chain [of "wrap example_wall_opening" voids_wall]
  have a': "get_relating_object (wrap example_wall_opening) = Some example_wall"
    by (simp add: voids_wall_def)
  have b: "\<not> (is_a (priv_raw (wrap example_loose_opening)) ''IfcFeatureElementSubtraction''
             \<and> length (VoidsElements (priv_raw (wrap example_loose_opening))) = 1)
      \<and> is_a (priv_raw (wrap example_loose_opening)) ''IfcElement''
      \<and> ContainedInStructure (priv_raw (wrap example_loose_opening)) = [contained_in_storey]"
    by (simp add: wrap_sel example_loose_opening_def is_a_def opening_types_def)
  with parent_priority_chain [of "wrap example_loose_opening" _ contained_in_storey]
  have b': "get_relating_object (wrap example_loose_opening) = Some example_storey"
    by (simp add: contained_in_storey_def)
  have c: "\<not> is_a (priv_raw (wrap example_space)) ''IfcFeatureElementSubtraction''
      \<and> \<not> is_a (priv_raw (wrap example_space)) ''IfcElement''
      \<and> is_a (priv_raw (wrap example_space)) ''IfcObjectDefinition''
      \<and> Decomposes (priv_raw (wrap example_space))
          = [RawRelation [''IfcRelAggregates'', ''IfcRelDecomposes'', ''IfcRelationship'', ''IfcRoot'']
               (Some example_storey) []]"
    by (simp add: wrap_sel example_space_def is_a_def)
  with parent_priority_chain [of "wrap example_space" _ _
      "RawRelation [''IfcRelAggregates'', ''IfcRelDecomposes'', ''IfcRelationship'', ''IfcRoot'']
               (Some example_storey) []"]
  have c': "get_relating_object (wrap example_space) = Some example_storey"
    by simp
  have d: "\<not> is_a (priv_raw (wrap example_project)) ''IfcFeatureElementSubtraction''
      \<and> \<not> is_a (priv_raw (wrap example_project)) ''IfcElement''
      \<and> length (Decomposes (priv_raw (wrap example_project))) \<noteq> 1"
    by (simp add: wrap_sel example_project_def plain_record_def is_a_def)
  with parent_priority_chain [of "wrap example_project"]
  have d': "get_relating_object (wrap example_project) = None
      \<and> load_parent (wrap example_project) = Inr None"
    by simp
  from a a' b b' c c' d d' show ?thesis by blast
qed

subsection \<open>Looking a property value up\<close>

lemma collect_properties_selected:
  "list_all2 (\<lambda>pset cn. codename pset = Inr cn) psets cns \<Longrightarrow>
   list_all2 (\<lambda>pset ps. load_properties pset = Inr ps) psets pss \<Longrightarrow>
     collect_properties f psets = Inr (selected_properties f cns pss)"
proof (induction psets arbitrary: cns pss)
  case Nil
  then show ?case by (simp add: selected_properties_def)
next
  case (Cons pset psets)
  from Cons.prems(1) obtain cn cns' where cns: "cns = cn # cns'" "codename pset = Inr cn"
    "list_all2 (\<lambda>pset cn. codename pset = Inr cn) psets cns'"
    by (auto simp add: list_all2_Cons1)
  from Cons.prems(2) obtain ps pss' where pss: "pss = ps # pss'" "load_properties pset = Inr ps"
    "list_all2 (\<lambda>pset ps. load_properties pset = Inr ps) psets pss'"
    by (auto simp add: list_all2_Cons1)
  from Cons.IH [OF cns(3) pss(3)]
  have rest: "collect_properties f psets = Inr (selected_properties f cns' pss')" .
  from rest show ?case
    by (cases f) (auto simp add: cns pss selected_properties_def)
qed

lemma first_property_find:
  "\<forall>p\<in>set props. \<exists>cn. prop_codename p = Inr cn \<Longrightarrow>
     first_property c props = Inr (find (\<lambda>p. prop_codename p = Inr c) props)"
  by (induction props) auto

text \<open>
  C3, amended: let the property sets of an entity load, let every set have a codename
  and load its properties, and let every property have a codename. Then
  \<open>get_property_value\<close> returns the value and the unit of the first property with the
  requested codename among the properties of the sets that the filter selects (all
  sets when there is no filter), in the order of the sets, and returns
  \<^verbatim>\<open>(None, None)\<close>, without raising, when there is none: when no set has the codename
  of the filter, and when the selected sets lack the property.
\<close>

theorem property_value_first_match:
  assumes sets: "load_property_sets e = Inr loaded"
    and set_names: "list_all2 (\<lambda>pset cn. codename pset = Inr cn) (tuple_or_empty loaded) cns"
    and set_props: "list_all2 (\<lambda>pset ps. load_properties pset = Inr ps) (tuple_or_empty loaded) pss"
    and prop_names: "\<forall>ps\<in>set pss. \<forall>p\<in>set ps. \<exists>cn. prop_codename p = Inr cn"
  shows "get_property_value e property_codename pset_codename =
           Inr (case find (\<lambda>p. prop_codename p = Inr property_codename)
                          (selected_properties pset_codename cns pss) of
                  None \<Rightarrow> (PyNone, PyNone)
                | Some p \<Rightarrow> (prop_value p, prop_unit p))"
proof -
  have "collect_properties pset_codename (tuple_or_empty loaded)
          = Inr (selected_properties pset_codename cns pss)"
    using set_names set_props by (rule collect_properties_selected)
  with sets have props: "get_properties e pset_codename
          = Inr (selected_properties pset_codename cns pss)"
    by (cases loaded) (simp_all add: get_properties_def tuple_or_empty_def)
  have "set (selected_properties pset_codename cns pss) \<subseteq> \<Union> (set ` set pss)"
    by (auto simp add: selected_properties_def dest: set_zip_rightD)
  with prop_names
  have "\<forall>p\<in>set (selected_properties pset_codename cns pss). \<exists>cn. prop_codename p = Inr cn"
    by blast
  then have "get_property e property_codename pset_codename
          = Inr (find (\<lambda>p. prop_codename p = Inr property_codename)
                   (selected_properties pset_codename cns pss))"
    by (simp add: get_property_def props first_property_find)
  then show ?thesis
    by (simp add: get_property_value_def split: option.splits)
qed

text \<open>
  C3, as the claim is worded, at a door style wrapped without a schema whose property
  set is a type-level one: the lookup of a property that the entity does not have
  raises \<^verbatim>\<open>AttributeError\<close>, because the properties of a type-level set are read from
  the schema, and an entity built without one fails at the first access that needs it.
\<close>

theorem property_value_without_schema_raises:
  "IfcObjectEntity_init (Some example_door_style) None (Tuple [''IfcTypeProduct''])
     = Inr (wrap example_door_style)
   \<and> get_property_value (wrap example_door_style) ''unknown_property'' None = Inl AttributeError"
proof -
  have "IfcObjectEntity_init (Some example_door_style) None (Tuple [''IfcTypeProduct''])
     = Inr (wrap example_door_style)"
    by (simp add: IfcObjectEntity_init_def IfcBaseEntity_init_def wrap_def is_a_def
        example_door_style_def)
  moreover have "load_property_sets (wrap example_door_style)
      = Inr (Some [\<lparr>priv_raw = example_lining, priv_schema = None, info = get_info example_lining,
                     pset_class = IfcObjectEntityTypePropertySet, priv_properties = NoneRef\<rparr>])"
    by (simp add: load_property_sets_def wrap_sel is_a_def example_door_style_def
        PropertySetBase_create_def IfcBaseEntity_init_def example_lining_def plain_record_def)
  then have "get_property_value (wrap example_door_style) ''unknown_property'' None
      = Inl AttributeError"
    by (simp add: get_property_value_def get_property_def get_properties_def
        load_properties_def schema_metadata_def)
  ultimately show ?thesis by blast
qed

text \<open>
  A filtered lookup also raises when a property set of the entity has no name: the
  codename of that set cannot be computed.
\<close>

lemma property_value_unnamed_set_raises:
  "get_property_value (wrap example_property_wall) ''height'' (Some ''dimensions'')
     = Inl AttributeError"
proof -
  have "load_property_sets (wrap example_property_wall) = Inr (Some [plain_set example_unnamed_set])"
    by (simp add: load_property_sets_def wrap_sel is_a_def example_property_wall_def
        defines_by_def rel_is_a_def PropertySetBase_create_def IfcBaseEntity_init_def
        example_unnamed_set_def pset_types_def plain_set_def)
  moreover have "codename (plain_set example_unnamed_set) = Inl AttributeError"
    by (simp add: codename_def codename_of_def clean_str_def name_def dict_get_def
        plain_set_def example_unnamed_set_def)
  ultimately show ?thesis
    by (simp add: get_property_value_def get_property_def get_properties_def)
qed

lemma example_door_sets:
  "load_property_sets (wrap example_property_door)
     = Inr (Some [plain_set example_dimensions, plain_set example_identity])"
  by (simp add: load_property_sets_def wrap_sel is_a_def example_property_door_def
      defines_by_def rel_is_a_def PropertySetBase_create_def IfcBaseEntity_init_def
      example_dimensions_def example_identity_def pset_types_def plain_set_def)

lemma example_door_set_names:
  "codename (plain_set example_dimensions) = Inr ''dimensions''"
  "codename (plain_set example_identity) = Inr ''identitydata''"
  by (simp_all add: codename_def codename_of_string name_def dict_get_def plain_set_def
      example_dimensions_def example_identity_def str_lower_def lower_char_def
      ascii_uppercase_def ascii_lowercase_def punctuation_def)

lemma example_door_set_properties:
  "load_properties (plain_set example_dimensions)
     = Inr [simple_property example_height, simple_property example_width]"
  "load_properties (plain_set example_identity) = Inr [simple_property example_mark]"
  by (simp_all add: load_properties_def plain_set_def example_dimensions_def
      example_identity_def PropertyBase_create_def IfcBaseEntity_init_def is_a_def
      example_height_def example_width_def example_mark_def plain_record_def
      property_types_def simple_property_def)

lemma example_door_property_names:
  "prop_codename (simple_property example_height) = Inr ''height''"
  "prop_codename (simple_property example_width) = Inr ''width''"
  "prop_codename (simple_property example_mark) = Inr ''mark''"
  by (simp_all add: prop_codename_def prop_name_def codename_of_string name_def dict_get_def
      simple_property_def example_height_def example_width_def example_mark_def
      plain_record_def str_lower_def lower_char_def
      ascii_uppercase_def ascii_lowercase_def punctuation_def)

theorem property_value_first_match_witness:
  "load_property_sets (wrap example_property_door)
     = Inr (Some [plain_set example_dimensions, plain_set example_identity])
   \<and> list_all2 (\<lambda>pset cn. codename pset = Inr cn)
        [plain_set example_dimensions, plain_set example_identity] [''dimensions'', ''identitydata'']
   \<and> list_all2 (\<lambda>pset ps. load_properties pset = Inr ps)
        [plain_set example_dimensions, plain_set example_identity]
        [[simple_property example_height, simple_property example_width],
         [simple_property example_mark]]
   \<and> get_property_value (wrap example_property_door) ''height'' None = Inr (PyInt 2110, PyNone)
   \<and> get_property_value (wrap example_property_door) ''width'' (Some ''dimensions'')
        = Inr (PyInt 910, PyNone)
   \<and> get_property_value (wrap example_property_door) ''height'' (Some ''identitydata'')
        = Inr (PyNone, PyNone)
   \<and> get_property_value (wrap example_property_door) ''height'' (Some ''unknown_pset'')
        = Inr (PyNone, PyNone)
   \<and> get_property_value (wrap example_property_door) ''unknown_property'' None
        = Inr (PyNone, PyNone)"
proof -
  let ?sets = "[plain_set example_dimensions, plain_set example_identity]"
  let ?cns = "[''dimensions'', ''identitydata'']"
  let ?pss = "[[simple_property example_height, simple_property example_width],
               [simple_property example_mark]]"
  have names: "list_all2 (\<lambda>pset cn. codename pset = Inr cn) (tuple_or_empty (Some ?sets)) ?cns"
    by (simp add: tuple_or_empty_def example_door_set_names)
  have props: "list_all2 (\<lambda>pset ps. load_properties pset = Inr ps) (tuple_or_empty (Some ?sets)) ?pss"
    by (simp add: tuple_or_empty_def example_door_set_properties)
  have pnames: "\<forall>ps\<in>set ?pss. \<forall>p\<in>set ps. \<exists>cn. prop_codename p = Inr cn"
    by (simp add: example_door_property_names)
  note first_match = property_value_first_match [OF example_door_sets names props pnames]
  have reads:
    "prop_value (simple_property example_height) = PyInt 2110"
    "prop_value (simple_property example_width) = PyInt 910"
    "prop_unit (simple_property example_height) = PyNone"
    "prop_unit (simple_property example_width) = PyNone"
    by (simp_all add: prop_value_def prop_unit_def dict_get_def simple_property_def
        example_height_def example_width_def plain_record_def)
  have "get_property_value (wrap example_property_door) ''height'' None = Inr (PyInt 2110, PyNone)"
    "get_property_value (wrap example_property_door) ''width'' (Some ''dimensions'')
        = Inr (PyInt 910, PyNone)"
    "get_property_value (wrap example_property_door) ''height'' (Some ''identitydata'')
        = Inr (PyNone, PyNone)"
    "get_property_value (wrap example_property_door) ''height'' (Some ''unknown_pset'')
        = Inr (PyNone, PyNone)"
    "get_property_value (wrap example_property_door) ''unknown_property'' None
        = Inr (PyNone, PyNone)"
    by (simp_all add: first_match selected_properties_def example_door_property_names reads)
  with example_door_sets names props show ?thesis
    by (simp add: tuple_or_empty_def)
qed

text \<open>
  The hypotheses of the amended claim hold for every set with a string name that is a
  plain set, or a type-level set whose type the schema knows: the property factory
  never raises.
\<close>

lemma PropertyBase_create_total: "\<exists>r. PropertyBase_create raw S n = Inr r"
  by (simp add: PropertyBase_create_def IfcBaseEntity_init_def)

lemma create_properties_total: "\<exists>ps. create_properties S xs = Inr ps"
proof (induction xs)
  case Nil
  then show ?case by simp
next
  case (Cons x xs)
  obtain raw n where x: "x = (raw, n)" by (cases x)
  from PropertyBase_create_total obtain r where "PropertyBase_create raw S n = Inr r" by blast
  with Cons x show ?case by auto
qed

lemma plain_set_loads:
  "pset_class pset = IfcObjectEntityPropertySet \<Longrightarrow> \<exists>ps. load_properties pset = Inr ps"
  by (simp add: load_properties_def create_properties_total)

lemma type_set_loads:
  "pset_class pset = IfcObjectEntityTypePropertySet \<Longrightarrow> schema_metadata pset = Inr metadata \<Longrightarrow>
     \<exists>ps. load_properties pset = Inr ps"
  by (simp add: load_properties_def create_properties_total)

lemma named_has_codename: "name b = PyStr s \<Longrightarrow> \<exists>cn. codename b = Inr cn"
  by (simp add: codename_def codename_of_string)

section \<open>Properties of the accessors that load on first use\<close>

lemma alloc_not_none: "alloc obj st = (r, st') \<Longrightarrow> r \<noteq> NoneRef"
  by (auto simp add: alloc_def)

lemma alloc_tuple_not_none: "alloc_tuple objs st = (r, st') \<Longrightarrow> r \<noteq> NoneRef"
  by (auto simp add: alloc_tuple_def alloc_def split: prod.splits)

lemma new_object_none: "new_object f loaded st = Inr (NoneRef, st') \<Longrightarrow> st' = st"
  by (auto simp add: new_object_def split: sum.splits option.splits dest: alloc_not_none)

lemma new_tuple_none: "new_tuple f loaded st = Inr (NoneRef, st') \<Longrightarrow> st' = st"
  by (auto simp add: new_tuple_def split: sum.splits option.splits dest: alloc_tuple_not_none)

text \<open>
  An access that has returned returns the same reference when it is repeated, and
  leaves the entity and the store as they are: either the field holds the reference, or
  the loader has returned \<^verbatim>\<open>None\<close> without creating an object and does so again.
\<close>

lemma memoized_again:
  assumes field_assign: "\<And>s r. field (assign s r) = r"
    and assign_field: "\<And>s. assign s (field s) = s"
    and load_none: "\<And>s st st'. load s st = Inr (NoneRef, st') \<Longrightarrow> st' = st"
    and first: "memoized field assign load (self, st) = Inr (r, self', st')"
  shows "memoized field assign load (self', st') = Inr (r, self', st')"
proof (cases "field self = NoneRef")
  case True
  with first obtain st1 where loaded: "load self st = Inr (r, st1)"
    and self': "self' = assign self r" and st': "st' = st1"
    by (auto simp add: memoized_def split: sum.splits)
  show ?thesis
  proof (cases "r = NoneRef")
    case True
    with loaded load_none have "st1 = st" by blast
    moreover from True \<open>field self = NoneRef\<close> self' assign_field [of self] have "self' = self"
      by simp
    ultimately show ?thesis using first st' by simp
  next
    case False
    with self' field_assign show ?thesis by (simp add: memoized_def)
  qed
next
  case False
  with first show ?thesis by (auto simp add: memoized_def)
qed

lemma access_after_again:
  assumes "\<And>state r state'. accessor state = Inr (r, state') \<Longrightarrow> accessor state' = Inr (r, state')"
    and "accessor state = Inr (r, state')"
  shows "access_after accessor n state = Inr (r, state')"
  using assms(2)
proof (induction n arbitrary: state)
  case 0
  then show ?case by simp
next
  case (Suc n)
  from assms(1) [OF Suc.prems] have "accessor state' = Inr (r, state')" .
  with Suc.IH have "access_after accessor n state' = Inr (r, state')" by blast
  with Suc.prems show ?case by simp
qed

lemma parent_again: "parent (self, st) = Inr (r, self', st') \<Longrightarrow> parent (self', st') = Inr (r, self', st')"
  unfolding parent_def by (rule memoized_again) (auto dest: new_object_none)

lemma kids_again: "kids (self, st) = Inr (r, self', st') \<Longrightarrow> kids (self', st') = Inr (r, self', st')"
  unfolding kids_def by (rule memoized_again) (auto dest: new_tuple_none)

lemma property_sets_again:
  "property_sets (self, st) = Inr (r, self', st') \<Longrightarrow> property_sets (self', st') = Inr (r, self', st')"
  unfolding property_sets_def by (rule memoized_again) (auto dest: new_tuple_none)

lemma quantities_again:
  "quantities (self, st) = Inr (r, self', st') \<Longrightarrow> quantities (self', st') = Inr (r, self', st')"
  unfolding quantities_def by (rule memoized_again) (auto dest: new_tuple_none)

lemma object_type_again:
  "object_type (self, st) = Inr (r, self', st') \<Longrightarrow> object_type (self', st') = Inr (r, self', st')"
  unfolding object_type_def by (rule memoized_again) (auto dest: new_object_none)

text \<open>
  C9: for each of the accessors \<open>parent\<close>, \<open>kids\<close>, \<open>property_sets\<close>,
  \<open>quantities\<close> and \<open>object_type\<close> of an entity, whatever the entity has loaded
  before: when an access returns a reference, the next access and every access after
  it return that same reference, which is the identical object or \<^verbatim>\<open>None\<close> again.
\<close>

theorem memoized_accessors_idempotent:
  "accessor \<in> {parent, kids, property_sets, quantities, object_type} \<Longrightarrow>
   accessor state = Inr (r, state') \<Longrightarrow>
     accessor state' = Inr (r, state') \<and> (\<forall>n. access_after accessor n state = Inr (r, state'))"
proof -
  assume acc: "accessor \<in> {parent, kids, property_sets, quantities, object_type}"
    and first: "accessor state = Inr (r, state')"
  have again: "accessor s' = Inr (x, s')" if "accessor s = Inr (x, s')" for s x s'
  proof -
    obtain self st where s: "s = (self, st)" by (cases s)
    obtain self' st' where s': "s' = (self', st')" by (cases s')
    from acc that show ?thesis
      unfolding s s'
      by (auto dest: parent_again kids_again property_sets_again quantities_again
          object_type_again)
  qed
  from again [OF first] have "accessor state' = Inr (r, state')" .
  moreover have "access_after accessor n state = Inr (r, state')" for n
    using again first by (rule access_after_again)
  ultimately show ?thesis by blast
qed

lemma example_space_loads:
  "load_parent (wrap example_space) = Inr (Some (wrap example_storey))"
  "load_kids (wrap example_space) = Inr (Some [])"
  "load_property_sets (wrap example_space) = Inr None"
  "load_quantities (wrap example_space) = Inr (Some [])"
  "load_object_type (wrap example_space) = Inr None"
proof -
  have storey: "is_a example_storey ''IfcObject''"
    by (simp add: is_a_def example_storey_def plain_record_def)
  have "get_relating_object (wrap example_space) = Some example_storey"
    by (simp add: get_relating_object_def wrap_sel example_space_def is_a_def)
  then show "load_parent (wrap example_space) = Inr (Some (wrap example_storey))"
    by (simp add: load_parent_def wrap_sel init_wrap [OF storey])
  show "load_kids (wrap example_space) = Inr (Some [])"
    by (simp add: load_kids_def get_related_objects_def wrap_sel example_space_def is_a_def)
  show "load_property_sets (wrap example_space) = Inr None"
    by (simp add: load_property_sets_def wrap_sel example_space_def is_a_def)
  show "load_quantities (wrap example_space) = Inr (Some [])"
    by (simp add: load_quantities_def wrap_sel example_space_def is_a_def)
  show "load_object_type (wrap example_space) = Inr None"
    by (simp add: load_object_type_def wrap_sel example_space_def is_a_def)
qed

theorem memoized_accessors_idempotent_witness:
  "parent \<in> {parent, kids, property_sets, quantities, object_type}
   \<and> parent (wrap example_space, [])
       = Inr (Ref 0, (wrap example_space)\<lparr>priv_parent := Ref 0\<rparr>, [EntityObject (wrap example_storey)])
   \<and> access_after parent 2 (wrap example_space, [])
       = Inr (Ref 0, (wrap example_space)\<lparr>priv_parent := Ref 0\<rparr>, [EntityObject (wrap example_storey)])
   \<and> kids (wrap example_space, [])
       = Inr (Ref 0, (wrap example_space)\<lparr>priv_kids := Ref 0\<rparr>, [TupleObject []])
   \<and> access_after kids 2 (wrap example_space, [])
       = Inr (Ref 0, (wrap example_space)\<lparr>priv_kids := Ref 0\<rparr>, [TupleObject []])
   \<and> property_sets (wrap example_space, []) = Inr (NoneRef, wrap example_space, [])
   \<and> access_after property_sets 2 (wrap example_space, []) = Inr (NoneRef, wrap example_space, [])
   \<and> quantities (wrap example_space, [])
       = Inr (Ref 0, (wrap example_space)\<lparr>priv_quantities := Ref 0\<rparr>, [TupleObject []])
   \<and> access_after quantities 2 (wrap example_space, [])
       = Inr (Ref 0, (wrap example_space)\<lparr>priv_quantities := Ref 0\<rparr>, [TupleObject []])
   \<and> object_type (wrap example_space, []) = Inr (NoneRef, wrap example_space, [])
   \<and> access_after object_type 2 (wrap example_space, []) = Inr (NoneRef, wrap example_space, [])"
proof -
  have fresh: "priv_parent (wrap example_space) = NoneRef" "priv_kids (wrap example_space) = NoneRef"
    "priv_property_sets (wrap example_space) = NoneRef"
    "priv_quantities (wrap example_space) = NoneRef"
    "priv_object_type (wrap example_space) = NoneRef"
    by (simp_all add: wrap_def)
  have same: "(wrap example_space)\<lparr>priv_property_sets := NoneRef\<rparr> = wrap example_space"
    "(wrap example_space)\<lparr>priv_object_type := NoneRef\<rparr> = wrap example_space"
    by (simp_all add: wrap_def)
  have p: "parent (wrap example_space, [])
       = Inr (Ref 0, (wrap example_space)\<lparr>priv_parent := Ref 0\<rparr>, [EntityObject (wrap example_storey)])"
    by (simp add: parent_def memoized_def fresh example_space_loads new_object_def alloc_def)
  have k: "kids (wrap example_space, [])
       = Inr (Ref 0, (wrap example_space)\<lparr>priv_kids := Ref 0\<rparr>, [TupleObject []])"
    by (simp add: kids_def memoized_def fresh example_space_loads new_tuple_def alloc_tuple_def
        alloc_def)
  have s: "property_sets (wrap example_space, []) = Inr (NoneRef, wrap example_space, [])"
    by (simp add: property_sets_def memoized_def fresh same example_space_loads new_tuple_def)
  have q: "quantities (wrap example_space, [])
       = Inr (Ref 0, (wrap example_space)\<lparr>priv_quantities := Ref 0\<rparr>, [TupleObject []])"
    by (simp add: quantities_def memoized_def fresh example_space_loads new_tuple_def
        alloc_tuple_def alloc_def)
  have t: "object_type (wrap example_space, []) = Inr (NoneRef, wrap example_space, [])"
    by (simp add: object_type_def memoized_def fresh same example_space_loads new_object_def)
  have m: "parent \<in> {parent, kids, property_sets, quantities, object_type}"
    "kids \<in> {parent, kids, property_sets, quantities, object_type}"
    "property_sets \<in> {parent, kids, property_sets, quantities, object_type}"
    "quantities \<in> {parent, kids, property_sets, quantities, object_type}"
    "object_type \<in> {parent, kids, property_sets, quantities, object_type}"
    by simp_all
  from memoized_accessors_idempotent [OF m(1) p] memoized_accessors_idempotent [OF m(2) k]
    memoized_accessors_idempotent [OF m(3) s] memoized_accessors_idempotent [OF m(4) q]
    memoized_accessors_idempotent [OF m(5) t] p k s q t m(1)
  show ?thesis by blast
qed

section \<open>Properties of the reader\<close>

lemma wrap_in_sel:
  "priv_raw (wrap_in S raw) = raw" "priv_schema (wrap_in S raw) = Some S"
  "info (wrap_in S raw) = get_info raw"
  by (simp_all add: wrap_in_def)

lemma init_wrap_in:
  "is_a raw ''IfcObject'' \<Longrightarrow>
     IfcObjectEntity_init (Some raw) (Some S) default_expected_types = Inr (wrap_in S raw)"
  by (simp add: IfcObjectEntity_init_def IfcBaseEntity_init_def default_expected_types_def
      wrap_in_def)

lemma example_sites_are_objects:
  "is_a example_site ''IfcObject''" "is_a example_site_complex ''IfcObject''"
  "is_a example_site ''IfcSite''" "is_a example_site_complex ''IfcSite''"
  by (simp_all add: is_a_def example_site_def example_site_complex_def plain_record_def
      site_types_def)

lemma example_read_entities:
  "read_entities example_reader ''IfcSite'' None
     = Inr [wrap_in example_schema example_site, wrap_in example_schema example_site_complex]"
  by (simp add: read_entities_def by_type_def example_reader_def example_sites_are_objects
      init_wrap_in)

lemma example_site_element:
  "is_element (wrap_in example_schema example_site)"
  "\<not> is_element (wrap_in example_schema example_site_complex)"
  by (simp_all add: is_element_def composition_type_def wrap_in_sel dict_get_def is_a_def
      example_site_def example_site_complex_def plain_record_def site_types_def)

lemma example_complex_parent:
  "load_parent (wrap_in example_schema example_site_complex)
     = Inr (Some (wrap_in example_schema example_site))"
proof -
  have "get_relating_object (wrap_in example_schema example_site_complex) = Some example_site"
    by (simp add: get_relating_object_def wrap_in_sel example_site_complex_def is_a_def
        site_types_def)
  then show ?thesis
    by (simp add: load_parent_def wrap_in_sel init_wrap_in example_sites_are_objects)
qed

text \<open>
  C8, evaluated at a file with an undivided site and a site complex whose parent it
  is: the complex site is not an element, its parent is one and is a site, and
  \<open>read_sites\<close> raises \<^verbatim>\<open>AttributeError\<close> instead of putting the parent into the result.
\<close>

theorem read_sites_complex_site_raises:
  "composition_type (wrap_in example_schema example_site) = PyStr ''ELEMENT''
   \<and> composition_type (wrap_in example_schema example_site_complex) = PyStr ''COMPLEX''
   \<and> load_parent (wrap_in example_schema example_site_complex)
        = Inr (Some (wrap_in example_schema example_site))
   \<and> is_a (priv_raw (wrap_in example_schema example_site)) ''IfcSite''
   \<and> read_sites example_reader True = Inl AttributeError"
proof -
  have "composition_type (wrap_in example_schema example_site) = PyStr ''ELEMENT''"
    "composition_type (wrap_in example_schema example_site_complex) = PyStr ''COMPLEX''"
    by (simp_all add: composition_type_def wrap_in_sel dict_get_def is_a_def
      example_site_def example_site_complex_def plain_record_def site_types_def)
  moreover have "read_sites example_reader True = Inl AttributeError"
    by (simp add: read_sites_def example_read_entities example_site_element
        example_complex_parent IfcObjectEntity_is_a_def)
  ultimately show ?thesis
    by (simp add: example_complex_parent wrap_in_sel example_sites_are_objects)
qed

text \<open>
  Whenever the loop of \<open>read_sites\<close> returns under the undivided-only filter, its
  result is the sites that are elements, in file order: every such site is retained,
  and no parent is ever put into the result.
\<close>

lemma site_entities_returns_elements:
  "site_entities True sites = Inr found \<Longrightarrow> found = filter is_element sites"
proof (induction sites arbitrary: found)
  case Nil
  then show ?case by simp
next
  case (Cons e sites)
  then show ?case
    by (auto simp add: IfcObjectEntity_is_a_def split: if_splits sum.splits option.splits)
qed

text \<open>
  A site that is no element and whose parent is one makes the loop raise.
\<close>

lemma site_entities_replaced_raises:
  "e \<in> set sites \<Longrightarrow> \<not> is_element e \<Longrightarrow> load_parent e = Inr (Some p) \<Longrightarrow> is_element p \<Longrightarrow>
     \<exists>x. site_entities True sites = Inl x"
proof (induction sites)
  case Nil
  then show ?case by simp
next
  case (Cons s sites)
  then show ?case
    by (auto simp add: IfcObjectEntity_is_a_def split: sum.splits option.splits)
qed

end
